theory Spec2Isabelle
  imports Main "HOL-Library.Word"
begin

unbundle bit_operations_syntax

section \<open>Shared status types\<close>

text \<open>
  \<^verbatim>\<open>ErrorStatus\<close> is the two-valued result of the bootloader's public functions,
  \<^verbatim>\<open>HAL_StatusTypeDef\<close> the four-valued result of the flash routines, and
  \<^verbatim>\<open>HAL_LockTypeDef\<close> the lock token of the flash process structure.
\<close>

datatype ErrorStatus = SUCCESS | ERROR

datatype HAL_StatusTypeDef = HAL_OK | HAL_ERROR | HAL_BUSY | HAL_TIMEOUT

datatype HAL_LockTypeDef = HAL_UNLOCKED | HAL_LOCKED

section \<open>Core: interface registry and command dispatcher (openbl_core.c)\<close>

text \<open>
  The transports and their command handlers are function pointers that act on the rest
  of the system. The rest of the system is the type variable \<open>'w\<close>; a function pointer
  is a function on \<open>'w\<close>, and a \<^verbatim>\<open>NULL\<close> pointer is \<open>None\<close>. The dispatcher's
  own variables are file-local statics, so no handler can reach them: they form a
  record of their own.
\<close>

record 'w OPENBL_OpsTypeDef =
  Init :: "('w \<Rightarrow> 'w) option"
  DeInit :: "('w \<Rightarrow> 'w) option"
  Detection :: "('w \<Rightarrow> 8 word \<times> 'w) option"
  GetCommandOpcode :: "('w \<Rightarrow> 8 word \<times> 'w) option"
  SendByte :: "(8 word \<Rightarrow> 'w \<Rightarrow> 'w) option"

record 'w OPENBL_CommandsTypeDef =
  GetCommand :: "('w \<Rightarrow> 'w) option"
  GetVersion :: "('w \<Rightarrow> 'w) option"
  GetID :: "('w \<Rightarrow> 'w) option"
  ReadMemory :: "('w \<Rightarrow> 'w) option"
  WriteMemory :: "('w \<Rightarrow> 'w) option"
  Go :: "('w \<Rightarrow> 'w) option"
  ReadoutProtect :: "('w \<Rightarrow> 'w) option"
  ReadoutUnprotect :: "('w \<Rightarrow> 'w) option"
  EraseMemory :: "('w \<Rightarrow> 'w) option"
  WriteProtect :: "('w \<Rightarrow> 'w) option"
  WriteUnprotect :: "('w \<Rightarrow> 'w) option"
  NsWriteMemory :: "('w \<Rightarrow> 'w) option"
  NsEraseMemory :: "('w \<Rightarrow> 'w) option"
  NsWriteProtect :: "('w \<Rightarrow> 'w) option"
  NsWriteUnprotect :: "('w \<Rightarrow> 'w) option"
  NsReadoutProtect :: "('w \<Rightarrow> 'w) option"
  NsReadoutUnprotect :: "('w \<Rightarrow> 'w) option"
  Speed :: "('w \<Rightarrow> 'w) option"
  SpecialCommand :: "('w \<Rightarrow> 'w) option"
  ExtendedSpecialCommand :: "('w \<Rightarrow> 'w) option"

record 'w OPENBL_HandleTypeDef =
  p_Ops :: "'w OPENBL_OpsTypeDef option"
  p_Cmd :: "'w OPENBL_CommandsTypeDef option"

text \<open>
  The constants of \<^verbatim>\<open>openbl_core.h\<close> and \<^verbatim>\<open>interfaces_conf.h\<close> are not part of the
  sources at hand; they are parameters of the model.
\<close>

record core_config =
  INTERFACES_SUPPORTED :: "32 word"
  NACK_BYTE :: "8 word"
  CMD_GET_COMMAND :: "8 word"
  CMD_GET_VERSION :: "8 word"
  CMD_GET_ID :: "8 word"
  CMD_READ_MEMORY :: "8 word"
  CMD_WRITE_MEMORY :: "8 word"
  CMD_GO :: "8 word"
  CMD_READ_PROTECT :: "8 word"
  CMD_READ_UNPROTECT :: "8 word"
  CMD_EXT_ERASE_MEMORY :: "8 word"
  CMD_LEG_ERASE_MEMORY :: "8 word"
  CMD_WRITE_PROTECT :: "8 word"
  CMD_WRITE_UNPROTECT :: "8 word"
  CMD_NS_WRITE_MEMORY :: "8 word"
  CMD_NS_ERASE_MEMORY :: "8 word"
  CMD_NS_WRITE_PROTECT :: "8 word"
  CMD_NS_WRITE_UNPROTECT :: "8 word"
  CMD_NS_READ_PROTECT :: "8 word"
  CMD_NS_READ_UNPROTECT :: "8 word"
  CMD_SPEED :: "8 word"
  CMD_SPECIAL_COMMAND :: "8 word"
  CMD_EXTENDED_SPECIAL_COMMAND :: "8 word"

text \<open>
  The statics of the file. \<^verbatim>\<open>p_Interface\<close> points into \<^verbatim>\<open>a_InterfacesTable\<close>, so it
  is the index of the slot it points to (\<open>None\<close> while it is \<^verbatim>\<open>NULL\<close>).
  \<^verbatim>\<open>interface_detected\<close> is the function-local static of \<^verbatim>\<open>OPENBL_Handler\<close>.
\<close>

record 'w core_state =
  NumberOfInterfaces :: "32 word"
  a_InterfacesTable :: "'w OPENBL_HandleTypeDef list"
  p_Interface :: "nat option"
  interface_detected :: "32 word"

definition null_handle :: "'w OPENBL_HandleTypeDef" where
  "null_handle = \<lparr>p_Ops = None, p_Cmd = None\<rparr>"

text \<open>Zero-initialised statics, as the C runtime leaves them before \<^verbatim>\<open>OPENBL_Init\<close>.\<close>

definition core_reset :: "core_config \<Rightarrow> 'w core_state" where
  "core_reset cfg =
     \<lparr>NumberOfInterfaces = 0,
      a_InterfacesTable = replicate (unat (INTERFACES_SUPPORTED cfg)) null_handle,
      p_Interface = None,
      interface_detected = 0\<rparr>"

definition OPENBL_RegisterInterface ::
  "core_config \<Rightarrow> 'w OPENBL_HandleTypeDef \<Rightarrow> 'w core_state \<Rightarrow> ErrorStatus \<times> 'w core_state" where
  "OPENBL_RegisterInterface cfg Interface s =
     (if NumberOfInterfaces s < INTERFACES_SUPPORTED cfg then
        (SUCCESS,
         s\<lparr>a_InterfacesTable :=
              (a_InterfacesTable s)[unat (NumberOfInterfaces s) :=
                 \<lparr>p_Ops = p_Ops Interface, p_Cmd = p_Cmd Interface\<rparr>],
           NumberOfInterfaces := NumberOfInterfaces s + 1\<rparr>)
      else (ERROR, s))"

text \<open>Successive registrations, as \<^verbatim>\<open>OPENBL_Init\<close> issues them; the statuses are collected.\<close>

fun register_all ::
  "core_config \<Rightarrow> 'w OPENBL_HandleTypeDef list \<Rightarrow> 'w core_state \<Rightarrow> ErrorStatus list \<times> 'w core_state" where
  "register_all cfg [] s = ([], s)"
| "register_all cfg (h # hs) s =
     (let (st, s1) = OPENBL_RegisterInterface cfg h s;
          (sts, s2) = register_all cfg hs s1
      in (st # sts, s2))"

text \<open>
  \<^verbatim>\<open>OPENBL_InterfaceDetection\<close>. The loop variable stays below \<^verbatim>\<open>NumberOfInterfaces\<close>,
  a 32-bit value, so its increment never wraps and it is a natural number here. A read
  past the end of the table or through a \<^verbatim>\<open>NULL\<close> \<^verbatim>\<open>p_Ops\<close> is a fault: \<open>None\<close>.
\<close>

function InterfaceDetection_loop ::
  "'w core_state \<Rightarrow> nat \<Rightarrow> 8 word \<Rightarrow> 'w \<Rightarrow> (8 word \<times> 'w core_state \<times> 'w) option" where
  "InterfaceDetection_loop s counter detected w =
     (if counter < unat (NumberOfInterfaces s) then
        (if counter < length (a_InterfacesTable s) then
           (case p_Ops (a_InterfacesTable s ! counter) of
              None \<Rightarrow> None
            | Some ops \<Rightarrow>
                (case Detection ops of
                   None \<Rightarrow> InterfaceDetection_loop s (counter + 1) detected w
                 | Some detect \<Rightarrow>
                     (case detect w of
                        (d, w1) \<Rightarrow>
                          if d = 1 then Some (d, s\<lparr>p_Interface := Some counter\<rparr>, w1)
                          else InterfaceDetection_loop s (counter + 1) d w1)))
         else None)
      else Some (detected, s, w))"
  by pat_completeness auto
termination
  by (relation "measure (\<lambda>(s, counter, detected, w). unat (NumberOfInterfaces s) - counter)") auto

definition OPENBL_InterfaceDetection ::
  "'w core_state \<Rightarrow> 'w \<Rightarrow> (32 word \<times> 'w core_state \<times> 'w) option" where
  "OPENBL_InterfaceDetection s w =
     (case InterfaceDetection_loop s 0 0 w of
        None \<Rightarrow> None
      | Some (detected, s1, w1) \<Rightarrow> Some (ucast detected, s1, w1))"

text \<open>
  The reply of every branch of the \<^verbatim>\<open>switch\<close> that finds no handler:
  \<^verbatim>\<open>if (p_Interface->p_Ops->SendByte != NULL) p_Interface->p_Ops->SendByte(NACK_BYTE);\<close>
\<close>

definition send_nack :: "core_config \<Rightarrow> 'w OPENBL_OpsTypeDef \<Rightarrow> 'w \<Rightarrow> 'w" where
  "send_nack cfg ops w =
     (case SendByte ops of
        Some send \<Rightarrow> send (NACK_BYTE cfg) w
      | None \<Rightarrow> w)"

text \<open>
  One \<^verbatim>\<open>case\<close> of the \<^verbatim>\<open>switch\<close>: the handler is read through \<^verbatim>\<open>p_Interface->p_Cmd\<close>
  (a fault when that pointer is \<^verbatim>\<open>NULL\<close>), called when present, and answered by
  \<open>send_nack\<close> otherwise. The twenty cases of the source differ in the field only.
\<close>

definition command_case ::
  "core_config \<Rightarrow> 'w OPENBL_HandleTypeDef \<Rightarrow> 'w OPENBL_OpsTypeDef \<Rightarrow>
   ('w OPENBL_CommandsTypeDef \<Rightarrow> ('w \<Rightarrow> 'w) option) \<Rightarrow> 'w \<Rightarrow> 'w option" where
  "command_case cfg h ops field w =
     (case p_Cmd h of
        None \<Rightarrow> None
      | Some cmds \<Rightarrow>
          (case field cmds of
             Some handler \<Rightarrow> Some (handler w)
           | None \<Rightarrow> Some (send_nack cfg ops w)))"

definition OPENBL_CommandProcess :: "core_config \<Rightarrow> 'w core_state \<Rightarrow> 'w \<Rightarrow> 'w option" where
  "OPENBL_CommandProcess cfg s w =
     (case p_Interface s of
        None \<Rightarrow> None
      | Some i \<Rightarrow>
          if i < length (a_InterfacesTable s) then
            (let h = a_InterfacesTable s ! i in
             case p_Ops h of
               None \<Rightarrow> None
             | Some ops \<Rightarrow>
                 (case GetCommandOpcode ops of
                    None \<Rightarrow> Some w
                  | Some get_opcode \<Rightarrow>
                      (case get_opcode w of
                         (command_opcode, w1) \<Rightarrow>
                           if command_opcode = CMD_GET_COMMAND cfg then
                             command_case cfg h ops GetCommand w1
                           else if command_opcode = CMD_GET_VERSION cfg then
                             command_case cfg h ops GetVersion w1
                           else if command_opcode = CMD_GET_ID cfg then
                             command_case cfg h ops GetID w1
                           else if command_opcode = CMD_READ_MEMORY cfg then
                             command_case cfg h ops ReadMemory w1
                           else if command_opcode = CMD_WRITE_MEMORY cfg then
                             command_case cfg h ops WriteMemory w1
                           else if command_opcode = CMD_GO cfg then
                             command_case cfg h ops Go w1
                           else if command_opcode = CMD_READ_PROTECT cfg then
                             command_case cfg h ops ReadoutProtect w1
                           else if command_opcode = CMD_READ_UNPROTECT cfg then
                             command_case cfg h ops ReadoutUnprotect w1
                           else if command_opcode = CMD_EXT_ERASE_MEMORY cfg then
                             command_case cfg h ops EraseMemory w1
                           else if command_opcode = CMD_LEG_ERASE_MEMORY cfg then
                             command_case cfg h ops EraseMemory w1
                           else if command_opcode = CMD_WRITE_PROTECT cfg then
                             command_case cfg h ops WriteProtect w1
                           else if command_opcode = CMD_WRITE_UNPROTECT cfg then
                             command_case cfg h ops WriteUnprotect w1
                           else if command_opcode = CMD_NS_WRITE_MEMORY cfg then
                             command_case cfg h ops NsWriteMemory w1
                           else if command_opcode = CMD_NS_ERASE_MEMORY cfg then
                             command_case cfg h ops NsEraseMemory w1
                           else if command_opcode = CMD_NS_WRITE_PROTECT cfg then
                             command_case cfg h ops NsWriteProtect w1
                           else if command_opcode = CMD_NS_WRITE_UNPROTECT cfg then
                             command_case cfg h ops NsWriteUnprotect w1
                           else if command_opcode = CMD_NS_READ_PROTECT cfg then
                             command_case cfg h ops NsReadoutProtect w1
                           else if command_opcode = CMD_NS_READ_UNPROTECT cfg then
                             command_case cfg h ops NsReadoutUnprotect w1
                           else if command_opcode = CMD_SPEED cfg then
                             command_case cfg h ops Speed w1
                           else if command_opcode = CMD_SPECIAL_COMMAND cfg then
                             command_case cfg h ops SpecialCommand w1
                           else if command_opcode = CMD_EXTENDED_SPECIAL_COMMAND cfg then
                             command_case cfg h ops ExtendedSpecialCommand w1
                           else Some (send_nack cfg ops w1))))
          else None)"

definition OPENBL_Handler ::
  "core_config \<Rightarrow> 'w core_state \<Rightarrow> 'w \<Rightarrow> ('w core_state \<times> 'w) option" where
  "OPENBL_Handler cfg s w =
     (case (if interface_detected s = 0 then
              (case OPENBL_InterfaceDetection s w of
                 None \<Rightarrow> None
               | Some (d, s1, w1) \<Rightarrow> Some (s1\<lparr>interface_detected := d\<rparr>, w1))
            else Some (s, w)) of
        None \<Rightarrow> None
      | Some (s1, w1) \<Rightarrow>
          if interface_detected s1 = 1 then
            (case OPENBL_CommandProcess cfg s1 w1 of
               None \<Rightarrow> None
             | Some w2 \<Rightarrow> Some (s1, w2))
          else Some (s1, w1))"


subsection \<open>The claims' vocabulary for the dispatcher\<close>

text \<open>
  The wire opcode of each field of the command table, in the order of the \<^verbatim>\<open>switch\<close>.
  An opcode is unknown when it is no key of this list; its handler is the field that
  \<open>map_of\<close> finds (the first match, as in the \<^verbatim>\<open>switch\<close>).
\<close>

definition command_table ::
  "core_config \<Rightarrow> (8 word \<times> ('w OPENBL_CommandsTypeDef \<Rightarrow> ('w \<Rightarrow> 'w) option)) list" where
  "command_table cfg =
     [(CMD_GET_COMMAND cfg, GetCommand),
      (CMD_GET_VERSION cfg, GetVersion),
      (CMD_GET_ID cfg, GetID),
      (CMD_READ_MEMORY cfg, ReadMemory),
      (CMD_WRITE_MEMORY cfg, WriteMemory),
      (CMD_GO cfg, Go),
      (CMD_READ_PROTECT cfg, ReadoutProtect),
      (CMD_READ_UNPROTECT cfg, ReadoutUnprotect),
      (CMD_EXT_ERASE_MEMORY cfg, EraseMemory),
      (CMD_LEG_ERASE_MEMORY cfg, EraseMemory),
      (CMD_WRITE_PROTECT cfg, WriteProtect),
      (CMD_WRITE_UNPROTECT cfg, WriteUnprotect),
      (CMD_NS_WRITE_MEMORY cfg, NsWriteMemory),
      (CMD_NS_ERASE_MEMORY cfg, NsEraseMemory),
      (CMD_NS_WRITE_PROTECT cfg, NsWriteProtect),
      (CMD_NS_WRITE_UNPROTECT cfg, NsWriteUnprotect),
      (CMD_NS_READ_PROTECT cfg, NsReadoutProtect),
      (CMD_NS_READ_UNPROTECT cfg, NsReadoutUnprotect),
      (CMD_SPEED cfg, Speed),
      (CMD_SPECIAL_COMMAND cfg, SpecialCommand),
      (CMD_EXTENDED_SPECIAL_COMMAND cfg, ExtendedSpecialCommand)]"






subsection \<open>An example system for the dispatcher\<close>

text \<open>
  A concrete system on which the dispatcher can be run: the rest of the system is the
  pair of the bytes the host still has to send and the bytes and markers emitted so
  far. The opcode values are those of the serial bootloader protocol the dispatcher
  speaks; they are example values of the parameters, nothing in the proofs of the
  general theorems depends on them.
\<close>

type_synonym wire = "8 word list \<times> 8 word list"

definition example_core_config :: core_config where
  "example_core_config =
     \<lparr>INTERFACES_SUPPORTED = 4,
      NACK_BYTE = 0x1F,
      CMD_GET_COMMAND = 0x00,
      CMD_GET_VERSION = 0x01,
      CMD_GET_ID = 0x02,
      CMD_READ_MEMORY = 0x11,
      CMD_WRITE_MEMORY = 0x31,
      CMD_GO = 0x21,
      CMD_READ_PROTECT = 0x82,
      CMD_READ_UNPROTECT = 0x92,
      CMD_EXT_ERASE_MEMORY = 0x44,
      CMD_LEG_ERASE_MEMORY = 0x43,
      CMD_WRITE_PROTECT = 0x63,
      CMD_WRITE_UNPROTECT = 0x73,
      CMD_NS_WRITE_MEMORY = 0x32,
      CMD_NS_ERASE_MEMORY = 0x45,
      CMD_NS_WRITE_PROTECT = 0x64,
      CMD_NS_WRITE_UNPROTECT = 0x74,
      CMD_NS_READ_PROTECT = 0x83,
      CMD_NS_READ_UNPROTECT = 0x93,
      CMD_SPEED = 0x03,
      CMD_SPECIAL_COMMAND = 0x50,
      CMD_EXTENDED_SPECIAL_COMMAND = 0x51\<rparr>"

text \<open>
  A transport whose detect capability emits the marker \<open>tag\<close> and returns \<open>d\<close>, whose
  get-opcode capability takes the next host byte, and whose send-byte capability
  emits the byte.
\<close>

definition example_ops :: "8 word \<Rightarrow> 8 word \<Rightarrow> wire OPENBL_OpsTypeDef" where
  "example_ops tag d =
     \<lparr>Init = None,
      DeInit = None,
      Detection = Some (\<lambda>w. (d, (fst w, snd w @ [tag]))),
      GetCommandOpcode =
        Some (\<lambda>w. case fst w of [] \<Rightarrow> (0, w) | b # bs \<Rightarrow> (b, (bs, snd w))),
      SendByte = Some (\<lambda>b w. (fst w, snd w @ [b]))\<rparr>"

text \<open>The same transport without a send-byte capability (as the FDCAN one).\<close>

definition example_ops_silent :: "8 word \<Rightarrow> 8 word \<Rightarrow> wire OPENBL_OpsTypeDef" where
  "example_ops_silent tag d = (example_ops tag d)\<lparr>SendByte := None\<rparr>"

text \<open>A command table with an erase handler (emits \<open>0xEE\<close>) and nothing else.\<close>

definition example_cmds :: "wire OPENBL_CommandsTypeDef" where
  "example_cmds =
     \<lparr>GetCommand = None, GetVersion = None, GetID = None, ReadMemory = None,
      WriteMemory = None, Go = None, ReadoutProtect = None, ReadoutUnprotect = None,
      EraseMemory = Some (\<lambda>w. (fst w, snd w @ [0xEE])),
      WriteProtect = None, WriteUnprotect = None, NsWriteMemory = None,
      NsEraseMemory = None, NsWriteProtect = None, NsWriteUnprotect = None,
      NsReadoutProtect = None, NsReadoutUnprotect = None, Speed = None,
      SpecialCommand = None, ExtendedSpecialCommand = None\<rparr>"

text \<open>The watchdog's handle: an init capability only, no command table.\<close>

definition example_watchdog :: "wire OPENBL_HandleTypeDef" where
  "example_watchdog =
     \<lparr>p_Ops = Some \<lparr>Init = Some (\<lambda>w. w), DeInit = None, Detection = None,
                     GetCommandOpcode = None, SendByte = None\<rparr>,
      p_Cmd = None\<rparr>"

definition example_transport :: "8 word \<Rightarrow> 8 word \<Rightarrow> wire OPENBL_HandleTypeDef" where
  "example_transport tag d = \<lparr>p_Ops = Some (example_ops tag d), p_Cmd = Some example_cmds\<rparr>"

definition example_transport_silent :: "8 word \<Rightarrow> 8 word \<Rightarrow> wire OPENBL_HandleTypeDef" where
  "example_transport_silent tag d =
     \<lparr>p_Ops = Some (example_ops_silent tag d), p_Cmd = Some example_cmds\<rparr>"

text \<open>
  Three registered interfaces in a table of four: the watchdog, a transport that sees
  no activity and one that does.
\<close>

definition example_registry :: "wire core_state" where
  "example_registry =
     \<lparr>NumberOfInterfaces = 3,
      a_InterfacesTable =
        [example_watchdog, example_transport 0xA1 0, example_transport 0xA2 1, null_handle],
      p_Interface = None,
      interface_detected = 0\<rparr>"



text \<open>A system whose active transport cannot reply.\<close>

definition example_registry_silent :: "wire core_state" where
  "example_registry_silent =
     \<lparr>NumberOfInterfaces = 1,
      a_InterfacesTable =
        [example_transport_silent 0xA3 1, null_handle, null_handle, null_handle],
      p_Interface = Some 0,
      interface_detected = 1\<rparr>"

text \<open>The example registry once its third interface has been detected.\<close>

definition example_detected :: "wire core_state" where
  "example_detected = example_registry\<lparr>p_Interface := Some 2, interface_detected := 1\<rparr>"

text \<open>Four handles, enough to fill the example table.\<close>

definition example_handles :: "wire OPENBL_HandleTypeDef list" where
  "example_handles =
     [example_watchdog, example_transport 0xA1 0, example_transport 0xA2 1,
      example_transport_silent 0xA3 1]"

section \<open>Flash interface (flash_interface.c)\<close>

subsection \<open>The hardware and the vendor library as an environment\<close>

text \<open>
  The flash routines talk to the flash controller and to the vendor library (HAL)
  through register accesses, HAL macros and HAL calls, none of which is part of the
  sources at hand. Each such access is an event; the state keeps the history of
  events, and the value an access returns is given by a device function of the
  history up to and including the access. Any deterministic device is such a
  function, one whose busy flag never clears included.
\<close>

datatype flash_reg = FLASH_SR | FLASH_ACR | FLASH_CR | FLASH_NSSR

datatype callback = OPENBL_OB_Launch

text \<open>
  The data of a program call: a double word is passed by value; a quad word is passed
  by address, and the event carries the sixteen bytes found there at the call.
\<close>

datatype program_data = DoubleWord "64 word" | QuadWord "8 word list"

datatype hw_event =
    RegRead flash_reg
  | RegWrite flash_reg "32 word"
  | READ_BIT flash_reg "32 word"
  | SET_BIT flash_reg "32 word"
  | CLEAR_BIT flash_reg "32 word"
  | HAL_FLASH_GET_FLAG "32 word"
  | HAL_FLASH_CLEAR_FLAG "32 word"
  | HAL_FLASH_INSTRUCTION_CACHE_DISABLE
  | HAL_FLASH_DATA_CACHE_DISABLE
  | HAL_FLASH_Unlock
  | HAL_FLASH_Lock
  | HAL_FLASH_OB_Unlock
  | HAL_FLASHEx_OBGetConfig
  | HAL_FLASHEx_OBProgram "32 word" "32 word"
  | HAL_FLASH_Program program_data "32 word"
  | FLASH_PageErase "32 word" "32 word"
  | FLASH_WaitForLastOperation "32 word"
  | FLASH_FlushCaches
  | OPENBL_I2C_SendBusyByte
  | Common_SetPostProcessingCallback callback

type_synonym device = "hw_event list \<Rightarrow> 32 word"

datatype FLASH_CacheTypeDef =
    FLASH_CACHE_DISABLED
  | FLASH_CACHE_ICACHE_ENABLED
  | FLASH_CACHE_DCACHE_ENABLED
  | FLASH_CACHE_ICACHE_DCACHE_ENABLED

datatype busy_state = FLASH_BUSY_STATE_DISABLED | FLASH_BUSY_STATE_ENABLED

datatype type_erase = FLASH_TYPEERASE_PAGES | FLASH_TYPEERASE_MASSERASE

text \<open>
  The globals of the file: \<^verbatim>\<open>FlashProcess\<close> (of its fields the code reads and writes
  \<^verbatim>\<open>Lock\<close>, \<^verbatim>\<open>ErrorCode\<close> and \<^verbatim>\<open>CacheToReactivate\<close> only) and \<^verbatim>\<open>Flash_BusyState\<close>,
  with the history of events.
\<close>

record flash_state =
  Lock :: HAL_LockTypeDef
  ErrorCode :: "32 word"
  CacheToReactivate :: FLASH_CacheTypeDef
  Flash_BusyState :: busy_state
  trace :: "hw_event list"

record FLASH_EraseInitTypeDef =
  TypeErase :: type_erase
  Banks :: "32 word"
  Page :: "32 word"
  NbPages :: "32 word"

text \<open>
  The constants of the HAL and of \<^verbatim>\<open>flash_interface.h\<close>, and the preprocessor symbols that
  select the variants of the code, are parameters.
\<close>

record flash_config =
  FLASH_OPTR_DBANK :: bool
  FLASH_TYPEPROGRAM_QUADWORD :: bool
  I2Cx :: bool
  ARM_FEATURE_CMSE_3 :: bool
  FLASH_FLAG_BSY :: "32 word"
  FLASH_FLAG_EOP :: "32 word"
  FLASH_FLAG_SR_ERRORS :: "32 word"
  FLASH_FLAG_ALL_ERRORS :: "32 word"
  FLASH_FLAG_OPTWERR :: "32 word"
  FLASH_ACR_ICEN :: "32 word"
  FLASH_ACR_DCEN :: "32 word"
  FLASH_CR_MER1 :: "32 word"
  FLASH_CR_STRT :: "32 word"
  FLASH_CR_PER :: "32 word"
  FLASH_CR_PNB :: "32 word"
  PROGRAM_TIMEOUT :: "32 word"
  FLASH_TIMEOUT_VALUE :: "32 word"
  FLASH_BANK_1 :: "32 word"
  FLASH_BANK_2 :: "32 word"
  FLASH_MASS_ERASE :: "32 word"
  FLASH_BANK1_ERASE :: "32 word"
  FLASH_BANK2_ERASE :: "32 word"
  HAL_FLASH_ERROR_NONE :: "32 word"
  OB_RDP_LEVEL2 :: "32 word"
  OPTIONBYTE_RDP :: "32 word"

text \<open>An access that returns nothing, and one that returns the device's answer.\<close>

definition hw_call :: "hw_event \<Rightarrow> flash_state \<Rightarrow> flash_state" where
  "hw_call ev s = s\<lparr>trace := trace s @ [ev]\<rparr>"

definition hw_read :: "device \<Rightarrow> hw_event \<Rightarrow> flash_state \<Rightarrow> 32 word \<times> flash_state" where
  "hw_read dev ev s = (dev (trace s @ [ev]), s\<lparr>trace := trace s @ [ev]\<rparr>)"

text \<open>The answer of a HAL call that returns a \<^verbatim>\<open>HAL_StatusTypeDef\<close>, by its enum value.\<close>

definition hal_status :: "32 word \<Rightarrow> HAL_StatusTypeDef" where
  "hal_status v =
     (if v = 0 then HAL_OK else if v = 1 then HAL_ERROR else if v = 2 then HAL_BUSY
      else HAL_TIMEOUT)"

text \<open>
  Memory is read through byte pointers: a function from 32-bit addresses to bytes.
  The target is little-endian.
\<close>

type_synonym memory = "32 word \<Rightarrow> 8 word"

definition read_u16 :: "memory \<Rightarrow> 32 word \<Rightarrow> 16 word" where
  "read_u16 mem p = ucast (mem p) OR push_bit 8 (ucast (mem (p + 1)))"

definition read_bytes :: "memory \<Rightarrow> 32 word \<Rightarrow> nat \<Rightarrow> 8 word list" where
  "read_bytes mem p n = map (\<lambda>i. mem (p + of_nat i)) [0..<n]"

definition le_u64 :: "8 word list \<Rightarrow> 64 word" where
  "le_u64 bs = foldr (\<lambda>b acc. ucast b OR push_bit 8 acc) bs 0"

definition read_u64 :: "memory \<Rightarrow> 32 word \<Rightarrow> 64 word" where
  "read_u64 mem p = le_u64 (read_bytes mem p 8)"

subsection \<open>Unlocking, locking, read-out protection\<close>

definition OPENBL_FLASH_Unlock :: "flash_state \<Rightarrow> flash_state" where
  "OPENBL_FLASH_Unlock s = hw_call HAL_FLASH_Unlock s"

definition OPENBL_FLASH_Lock :: "flash_state \<Rightarrow> flash_state" where
  "OPENBL_FLASH_Lock s = hw_call HAL_FLASH_Lock s"

definition OPENBL_FLASH_OB_Unlock :: "flash_state \<Rightarrow> flash_state" where
  "OPENBL_FLASH_OB_Unlock s = hw_call HAL_FLASH_OB_Unlock (hw_call HAL_FLASH_Unlock s)"

definition OPENBL_FLASH_GetReadOutProtectionLevel ::
  "device \<Rightarrow> flash_state \<Rightarrow> 32 word \<times> flash_state" where
  "OPENBL_FLASH_GetReadOutProtectionLevel dev s = hw_read dev HAL_FLASHEx_OBGetConfig s"

text \<open>
  \<^verbatim>\<open>OPENBL_FLASH_SetReadOutProtectionLevel\<close>. Of the local \<^verbatim>\<open>flash_ob\<close> the fields
  \<^verbatim>\<open>OptionType\<close> and \<^verbatim>\<open>RDPLevel\<close> are set before the program call, which the event
  carries; the function returns nothing.
\<close>

definition OPENBL_FLASH_SetReadOutProtectionLevel ::
  "flash_config \<Rightarrow> 32 word \<Rightarrow> flash_state \<Rightarrow> flash_state" where
  "OPENBL_FLASH_SetReadOutProtectionLevel cfg Level s =
     (let s1 = (if Level \<noteq> OB_RDP_LEVEL2 cfg then
                  hw_call (HAL_FLASHEx_OBProgram (OPTIONBYTE_RDP cfg) Level)
                    (OPENBL_FLASH_OB_Unlock s)
                else s)
      in hw_call (Common_SetPostProcessingCallback OPENBL_OB_Launch) s1)"

subsection \<open>Waiting for the flash\<close>

text \<open>
  The busy loop of \<^verbatim>\<open>OPENBL_FLASH_WaitForLastOperation\<close>:
  \<^verbatim>\<open>while (__HAL_FLASH_GET_FLAG(FLASH_FLAG_BSY)) { if (tick++ > Timeout) return HAL_TIMEOUT; }\<close>
  The result is whether the loop ended by the timeout. With a device that stays busy
  and \<^verbatim>\<open>Timeout = 0xFFFFFFFF\<close> the counter wraps and the loop never ends: \<open>None\<close>.
\<close>

partial_function (option) WaitForLastOperation_loop ::
  "flash_config \<Rightarrow> device \<Rightarrow> 32 word \<Rightarrow> 32 word \<Rightarrow> flash_state \<Rightarrow> (bool \<times> flash_state) option" where
  "WaitForLastOperation_loop cfg dev Timeout tick s =
     (case hw_read dev (HAL_FLASH_GET_FLAG (FLASH_FLAG_BSY cfg)) s of
        (bsy, s1) \<Rightarrow>
          if bsy \<noteq> 0 then
            (if tick > Timeout then Some (True, s1)
             else WaitForLastOperation_loop cfg dev Timeout (tick + 1) s1)
          else Some (False, s1))"

declare WaitForLastOperation_loop.simps [code]

text \<open>The busy loop of \<^verbatim>\<open>OPENBL_FLASH_SendBusyState\<close>, which sends the busy byte.\<close>

partial_function (option) SendBusyState_loop ::
  "flash_config \<Rightarrow> device \<Rightarrow> 32 word \<Rightarrow> 32 word \<Rightarrow> flash_state \<Rightarrow> (bool \<times> flash_state) option" where
  "SendBusyState_loop cfg dev Timeout tick s =
     (case hw_read dev (HAL_FLASH_GET_FLAG (FLASH_FLAG_BSY cfg)) s of
        (bsy, s1) \<Rightarrow>
          if bsy \<noteq> 0 then
            (if tick > Timeout then Some (True, s1)
             else SendBusyState_loop cfg dev Timeout (tick + 1)
                    (if I2Cx cfg then hw_call OPENBL_I2C_SendBusyByte s1 else s1))
          else Some (False, s1))"

declare SendBusyState_loop.simps [code]

text \<open>
  \<^verbatim>\<open>error = (FLASH->SR & FLASH_FLAG_SR_ERRORS)\<close>, and under \<^verbatim>\<open>__ARM_FEATURE_CMSE == 3\<close>
  \<^verbatim>\<open>error |= (FLASH->NSSR & FLASH_FLAG_OPTWERR)\<close>.
\<close>

definition read_error_flags :: "flash_config \<Rightarrow> device \<Rightarrow> flash_state \<Rightarrow> 32 word \<times> flash_state" where
  "read_error_flags cfg dev s =
     (case hw_read dev (RegRead FLASH_SR) s of
        (sr, s1) \<Rightarrow>
          if ARM_FEATURE_CMSE_3 cfg then
            (case hw_read dev (RegRead FLASH_NSSR) s1 of
               (nssr, s2) \<Rightarrow>
                 ((sr AND FLASH_FLAG_SR_ERRORS cfg) OR (nssr AND FLASH_FLAG_OPTWERR cfg), s2))
          else (sr AND FLASH_FLAG_SR_ERRORS cfg, s1))"

text \<open>
  \<^verbatim>\<open>__HAL_FLASH_CLEAR_FLAG(error)\<close>, and under \<^verbatim>\<open>__ARM_FEATURE_CMSE == 3\<close> the write of
  \<^verbatim>\<open>FLASH_FLAG_OPTWERR\<close> to \<^verbatim>\<open>FLASH->NSSR\<close> when that flag is among the errors.
\<close>

definition clear_error_flags :: "flash_config \<Rightarrow> 32 word \<Rightarrow> flash_state \<Rightarrow> flash_state" where
  "clear_error_flags cfg error s =
     (let s1 = hw_call (HAL_FLASH_CLEAR_FLAG error) s
      in if ARM_FEATURE_CMSE_3 cfg \<and> error AND FLASH_FLAG_OPTWERR cfg \<noteq> 0 then
           hw_call (RegWrite FLASH_NSSR (FLASH_FLAG_OPTWERR cfg)) s1
         else s1)"

text \<open>The end-of-operation flag is cleared when it is set.\<close>

definition clear_end_of_operation :: "flash_config \<Rightarrow> device \<Rightarrow> flash_state \<Rightarrow> flash_state" where
  "clear_end_of_operation cfg dev s =
     (case hw_read dev (HAL_FLASH_GET_FLAG (FLASH_FLAG_EOP cfg)) s of
        (eop, s1) \<Rightarrow>
          if eop \<noteq> 0 then hw_call (HAL_FLASH_CLEAR_FLAG (FLASH_FLAG_EOP cfg)) s1 else s1)"

definition OPENBL_FLASH_SendBusyState ::
  "flash_config \<Rightarrow> device \<Rightarrow> 32 word \<Rightarrow> flash_state \<Rightarrow> (HAL_StatusTypeDef \<times> flash_state) option" where
  "OPENBL_FLASH_SendBusyState cfg dev Timeout s =
     (case SendBusyState_loop cfg dev Timeout 0 s of
        None \<Rightarrow> None
      | Some (timed_out, s1) \<Rightarrow>
          if timed_out then Some (HAL_TIMEOUT, s1)
          else
            (case read_error_flags cfg dev s1 of
               (error, s2) \<Rightarrow>
                 if error \<noteq> 0 then Some (HAL_ERROR, clear_error_flags cfg error s2)
                 else Some (HAL_OK, clear_end_of_operation cfg dev s2)))"

definition OPENBL_FLASH_WaitForLastOperation ::
  "flash_config \<Rightarrow> device \<Rightarrow> 32 word \<Rightarrow> flash_state \<Rightarrow> (HAL_StatusTypeDef \<times> flash_state) option" where
  "OPENBL_FLASH_WaitForLastOperation cfg dev Timeout s =
     (case WaitForLastOperation_loop cfg dev Timeout 0 s of
        None \<Rightarrow> None
      | Some (timed_out, s1) \<Rightarrow>
          if timed_out then Some (HAL_TIMEOUT, s1)
          else
            (case read_error_flags cfg dev s1 of
               (error, s2) \<Rightarrow>
                 if error \<noteq> 0 then
                   Some (HAL_ERROR,
                         clear_error_flags cfg error (s2\<lparr>ErrorCode := ErrorCode s2 OR error\<rparr>))
                 else Some (HAL_OK, clear_end_of_operation cfg dev s2)))"

subsection \<open>Erasing\<close>

text \<open>
  The choice of the wait after an erase was started: the keep-alive variant when the
  busy-state flag is enabled, the HAL's own \<^verbatim>\<open>FLASH_WaitForLastOperation\<close> otherwise.
\<close>

definition erase_wait ::
  "flash_config \<Rightarrow> device \<Rightarrow> 32 word \<Rightarrow> flash_state \<Rightarrow> (HAL_StatusTypeDef \<times> flash_state) option" where
  "erase_wait cfg dev hal_timeout s =
     (if Flash_BusyState s = FLASH_BUSY_STATE_ENABLED then
        OPENBL_FLASH_SendBusyState cfg dev (FLASH_TIMEOUT_VALUE cfg) s
      else
        (case hw_read dev (FLASH_WaitForLastOperation hal_timeout) s of
           (v, s1) \<Rightarrow> Some (hal_status v, s1)))"

text \<open>The caches are switched off before an erase, and what was on is recorded.\<close>

definition deactivate_caches :: "flash_config \<Rightarrow> device \<Rightarrow> flash_state \<Rightarrow> flash_state" where
  "deactivate_caches cfg dev s =
     (case hw_read dev (READ_BIT FLASH_ACR (FLASH_ACR_ICEN cfg)) s of
        (icen, s1) \<Rightarrow>
          if icen \<noteq> 0 then
            (let s2 = hw_call HAL_FLASH_INSTRUCTION_CACHE_DISABLE s1 in
             case hw_read dev (READ_BIT FLASH_ACR (FLASH_ACR_DCEN cfg)) s2 of
               (dcen, s3) \<Rightarrow>
                 if dcen \<noteq> 0 then
                   (hw_call HAL_FLASH_DATA_CACHE_DISABLE s3)
                     \<lparr>CacheToReactivate := FLASH_CACHE_ICACHE_DCACHE_ENABLED\<rparr>
                 else s3\<lparr>CacheToReactivate := FLASH_CACHE_ICACHE_ENABLED\<rparr>)
          else
            (case hw_read dev (READ_BIT FLASH_ACR (FLASH_ACR_DCEN cfg)) s1 of
               (dcen, s2) \<Rightarrow>
                 if dcen \<noteq> 0 then
                   (hw_call HAL_FLASH_DATA_CACHE_DISABLE s2)
                     \<lparr>CacheToReactivate := FLASH_CACHE_DCACHE_ENABLED\<rparr>
                 else s2\<lparr>CacheToReactivate := FLASH_CACHE_DISABLED\<rparr>))"

text \<open>
  The page loop of \<^verbatim>\<open>OPENBL_FLASH_ExtendedErase\<close>, from \<open>page_index\<close> up to
  \<open>bound = Page + NbPages\<close> (in 32-bit arithmetic); it stops at the first page whose
  wait does not return \<^verbatim>\<open>HAL_OK\<close> and reports that page.
\<close>

function ExtendedErase_pages ::
  "flash_config \<Rightarrow> device \<Rightarrow> 32 word \<Rightarrow> 32 word \<Rightarrow> 32 word \<Rightarrow> HAL_StatusTypeDef \<Rightarrow> 32 word \<Rightarrow>
   flash_state \<Rightarrow> (HAL_StatusTypeDef \<times> 32 word \<times> flash_state) option" where
  "ExtendedErase_pages cfg dev banks bound page_index status PageError s =
     (if page_index < bound then
        (case erase_wait cfg dev (PROGRAM_TIMEOUT cfg)
                (hw_call (FLASH_PageErase page_index banks) s) of
           None \<Rightarrow> None
         | Some (status1, s1) \<Rightarrow>
             (let s2 = hw_call (CLEAR_BIT FLASH_CR (FLASH_CR_PER cfg OR FLASH_CR_PNB cfg)) s1
              in if status1 \<noteq> HAL_OK then Some (status1, page_index, s2)
                 else ExtendedErase_pages cfg dev banks bound (page_index + 1) status1 PageError s2))
      else Some (status, PageError, s))"
  by pat_completeness auto
termination
proof (relation "measure (\<lambda>(cfg, dev, banks, bound, page_index, status, PageError, s).
                    unat bound - unat page_index)")
  show "wf (measure (\<lambda>(cfg, dev, banks, bound, page_index, status, PageError, s).
                    unat bound - unat (page_index :: 32 word)))"
    by simp
next
  fix cfg :: flash_config and dev :: device and banks bound page_index :: "32 word"
    and status :: HAL_StatusTypeDef and PageError :: "32 word" and s :: flash_state
    and x2 x1 y xa
  assume lt: "page_index < bound"
  have a: "unat page_index < unat bound"
    using lt by (simp add: word_less_nat_alt)
  have b: "unat bound < 2 ^ 32"
    using unsigned_less [of bound] by simp
  have "unat (page_index + 1) = unat page_index + 1"
    using a b by (simp add: unat_word_ariths)
  then show "((cfg, dev, banks, bound, page_index + 1, x1, PageError, xa),
              (cfg, dev, banks, bound, page_index, status, PageError, s))
             \<in> measure (\<lambda>(cfg, dev, banks, bound, page_index, status, PageError, s).
                    unat bound - unat page_index)"
    using a by simp
qed

declare ExtendedErase_pages.simps [simp del]

text \<open>
  Modelled from the spec: the lock macros \<^verbatim>\<open>__HAL_LOCK\<close> and \<^verbatim>\<open>__HAL_UNLOCK\<close> are not
  among the sources. The lock token is held or free and is checked at entry: a held
  token makes \<^verbatim>\<open>OPENBL_FLASH_ExtendedErase\<close> return \<^verbatim>\<open>HAL_BUSY\<close> at once, a free
  one is taken and given back at the end.

  \<^verbatim>\<open>OPENBL_FLASH_ExtendedErase\<close>, the branch that is compiled (\<^verbatim>\<open>#else\<close> of \<^verbatim>\<open>#if 0\<close>).
  \<open>PageError\<close> is the content of the caller's variable, returned as the call leaves it.
\<close>

definition OPENBL_FLASH_ExtendedErase ::
  "flash_config \<Rightarrow> device \<Rightarrow> FLASH_EraseInitTypeDef \<Rightarrow> 32 word \<Rightarrow> flash_state \<Rightarrow>
   (HAL_StatusTypeDef \<times> 32 word \<times> flash_state) option" where
  "OPENBL_FLASH_ExtendedErase cfg dev pEraseInit PageError s =
     (if Lock s = HAL_LOCKED then Some (HAL_BUSY, PageError, s)
      else
        (case OPENBL_FLASH_WaitForLastOperation cfg dev (PROGRAM_TIMEOUT cfg)
                (s\<lparr>Lock := HAL_LOCKED, ErrorCode := HAL_FLASH_ERROR_NONE cfg\<rparr>) of
           None \<Rightarrow> None
         | Some (status, s1) \<Rightarrow>
             (case (if status = HAL_OK then
                      (case (if TypeErase pEraseInit = FLASH_TYPEERASE_MASSERASE then
                               (case erase_wait cfg dev (FLASH_TIMEOUT_VALUE cfg)
                                       (hw_call (SET_BIT FLASH_CR (FLASH_CR_STRT cfg))
                                          (hw_call (SET_BIT FLASH_CR (FLASH_CR_MER1 cfg))
                                             (deactivate_caches cfg dev s1))) of
                                  None \<Rightarrow> None
                                | Some (status1, s2) \<Rightarrow>
                                    Some (status1, PageError,
                                          hw_call (CLEAR_BIT FLASH_CR (FLASH_CR_MER1 cfg)) s2))
                             else
                               ExtendedErase_pages cfg dev (Banks pEraseInit)
                                 (Page pEraseInit + NbPages pEraseInit) (Page pEraseInit)
                                 status 0xFFFFFFFF (deactivate_caches cfg dev s1)) of
                         None \<Rightarrow> None
                       | Some (status1, PageError1, s3) \<Rightarrow>
                           Some (status1, PageError1, hw_call FLASH_FlushCaches s3))
                    else Some (status, PageError, s1)) of
                None \<Rightarrow> None
              | Some (status2, PageError2, s4) \<Rightarrow>
                  Some (status2, PageError2,
                        s4\<lparr>Lock := HAL_UNLOCKED,
                           Flash_BusyState := FLASH_BUSY_STATE_DISABLED\<rparr>))))"

text \<open>
  \<^verbatim>\<open>OPENBL_FLASH_MassErase\<close>. \<open>erase_init_struct\<close> and \<open>page_error\<close> are the contents of
  the uninitialised locals at entry.
\<close>

definition OPENBL_FLASH_MassErase ::
  "flash_config \<Rightarrow> device \<Rightarrow> memory \<Rightarrow> 32 word \<Rightarrow> 32 word \<Rightarrow> FLASH_EraseInitTypeDef \<Rightarrow> 32 word \<Rightarrow>
   flash_state \<Rightarrow> (ErrorStatus \<times> flash_state) option" where
  "OPENBL_FLASH_MassErase cfg dev mem p_Data DataLength erase_init_struct page_error s =
     (let s1 = OPENBL_FLASH_Unlock s;
          init1 = erase_init_struct\<lparr>TypeErase := FLASH_TYPEERASE_MASSERASE\<rparr>
      in if DataLength \<ge> 2 then
           (let bank_option = read_u16 mem p_Data in
            case (if ucast bank_option = FLASH_MASS_ERASE cfg then
                    (init1\<lparr>Banks := 0\<rparr>, SUCCESS)
                  else if ucast bank_option = FLASH_BANK1_ERASE cfg then
                    (init1\<lparr>Banks := FLASH_BANK_1 cfg\<rparr>, SUCCESS)
                  else if FLASH_OPTR_DBANK cfg \<and> ucast bank_option = FLASH_BANK2_ERASE cfg then
                    (init1\<lparr>Banks := FLASH_BANK_2 cfg\<rparr>, SUCCESS)
                  else (init1, ERROR)) of
              (init2, status) \<Rightarrow>
                if status = SUCCESS then
                  (case OPENBL_FLASH_ExtendedErase cfg dev init2 page_error s1 of
                     None \<Rightarrow> None
                   | Some (hal, page_error1, s2) \<Rightarrow>
                       Some (if hal \<noteq> HAL_OK then ERROR else SUCCESS, OPENBL_FLASH_Lock s2))
                else Some (status, OPENBL_FLASH_Lock s1))
         else Some (ERROR, OPENBL_FLASH_Lock s1))"

text \<open>
  The loop of \<^verbatim>\<open>OPENBL_FLASH_Erase\<close>. \<open>counter\<close> stays below the 16-bit page count, so
  neither it nor \<open>errors\<close> can wrap; both are natural numbers. \<open>p_Data\<close> is the moving
  pointer.
\<close>

function Erase_loop ::
  "flash_config \<Rightarrow> device \<Rightarrow> memory \<Rightarrow> 32 word \<Rightarrow> 32 word \<Rightarrow> nat \<Rightarrow> 32 word \<Rightarrow>
   FLASH_EraseInitTypeDef \<Rightarrow> 32 word \<Rightarrow> nat \<Rightarrow> ErrorStatus \<Rightarrow> flash_state \<Rightarrow>
   (nat \<times> flash_state) option" where
  "Erase_loop cfg dev mem pages_number DataLength counter p_Data erase_init_struct page_error
     errors status s =
     (if counter < unat pages_number \<and> counter < unat (DataLength div 2) then
        (let init1 = erase_init_struct\<lparr>Page := ucast (read_u16 mem p_Data)\<rparr> in
         case (if Page init1 \<le> 127 then (init1\<lparr>Banks := FLASH_BANK_1 cfg\<rparr>, status)
               else if FLASH_OPTR_DBANK cfg \<and> Page init1 \<le> 255 then
                 (init1\<lparr>Banks := FLASH_BANK_2 cfg\<rparr>, status)
               else (init1, ERROR)) of
           (init2, status1) \<Rightarrow>
             if status1 \<noteq> ERROR then
               (case OPENBL_FLASH_ExtendedErase cfg dev init2 page_error s of
                  None \<Rightarrow> None
                | Some (hal, page_error1, s1) \<Rightarrow>
                    Erase_loop cfg dev mem pages_number DataLength (counter + 1) (p_Data + 2)
                      init2 page_error1 (if hal \<noteq> HAL_OK then errors + 1 else errors)
                      status1 s1)
             else
               Erase_loop cfg dev mem pages_number DataLength (counter + 1) (p_Data + 2)
                 init2 page_error errors SUCCESS s)
      else Some (errors, s))"
  by pat_completeness auto
termination
  by (relation "measure (\<lambda>(cfg, dev, mem, pages_number, DataLength, counter, rest).
                  unat pages_number - counter)") auto

declare Erase_loop.simps [simp del]

definition OPENBL_FLASH_Erase ::
  "flash_config \<Rightarrow> device \<Rightarrow> memory \<Rightarrow> 32 word \<Rightarrow> 32 word \<Rightarrow> FLASH_EraseInitTypeDef \<Rightarrow> 32 word \<Rightarrow>
   flash_state \<Rightarrow> (ErrorStatus \<times> flash_state) option" where
  "OPENBL_FLASH_Erase cfg dev mem p_Data DataLength erase_init_struct page_error s =
     (let s1 = hw_call (HAL_FLASH_CLEAR_FLAG (FLASH_FLAG_ALL_ERRORS cfg)) (OPENBL_FLASH_Unlock s);
          pages_number = ucast (read_u16 mem p_Data)
      in case Erase_loop cfg dev mem pages_number DataLength 0 (p_Data + 2)
                (erase_init_struct\<lparr>TypeErase := FLASH_TYPEERASE_PAGES, NbPages := 1\<rparr>)
                page_error 0 SUCCESS s1 of
           None \<Rightarrow> None
         | Some (errors, s2) \<Rightarrow>
             Some (if errors > 0 then ERROR else SUCCESS, OPENBL_FLASH_Lock s2))"

text \<open>
  \<^verbatim>\<open>OPENBL_Enable_BusyState_Flag\<close> and \<^verbatim>\<open>OPENBL_Disable_BusyState_Flag\<close>: a command
  handler enables the sending of the busy byte before a long operation.
\<close>

definition OPENBL_Enable_BusyState_Flag :: "flash_state \<Rightarrow> flash_state" where
  "OPENBL_Enable_BusyState_Flag s = s\<lparr>Flash_BusyState := FLASH_BUSY_STATE_ENABLED\<rparr>"

definition OPENBL_Disable_BusyState_Flag :: "flash_state \<Rightarrow> flash_state" where
  "OPENBL_Disable_BusyState_Flag s = s\<lparr>Flash_BusyState := FLASH_BUSY_STATE_DISABLED\<rparr>"

subsection \<open>Programming\<close>

text \<open>
  The two loops that prepare \<^verbatim>\<open>remainder_data\<close> in the quad-word variant: the copy of the
  remaining bytes from \<open>src = Data + length\<close>, then the fill of the upper bytes.
\<close>

function copy_remaining :: "memory \<Rightarrow> 32 word \<Rightarrow> nat \<Rightarrow> nat \<Rightarrow> 8 word list \<Rightarrow> 8 word list" where
  "copy_remaining mem src remainder index remainder_data =
     (if index < remainder then
        copy_remaining mem src remainder (index + 1)
          (remainder_data[index := mem (src + of_nat index)])
      else remainder_data)"
  by pat_completeness auto
termination
  by (relation "measure (\<lambda>(mem, src, remainder, index, remainder_data). remainder - index)") auto

declare copy_remaining.simps [simp del]

function fill_upper :: "nat \<Rightarrow> 8 word list \<Rightarrow> 8 word list" where
  "fill_upper index remainder_data =
     (if index < 16 then fill_upper (index + 1) (remainder_data[index := 0xFF])
      else remainder_data)"
  by pat_completeness auto
termination
  by (relation "measure (\<lambda>(index, remainder_data). 16 - index)") auto

declare fill_upper.simps [simp del]

text \<open>
  The program loops, \<^verbatim>\<open>for (index = 0U; index < length; (index += 16U))\<close> and the same
  in steps of 8. The index is a 32-bit value and wraps; a loop that never reaches
  \<open>length\<close> is \<open>None\<close>.
\<close>

partial_function (option) Write_quadword_loop ::
  "memory \<Rightarrow> 32 word \<Rightarrow> 32 word \<Rightarrow> 32 word \<Rightarrow> 32 word \<Rightarrow> flash_state \<Rightarrow> flash_state option" where
  "Write_quadword_loop mem Address Data length1 index s =
     (if index < length1 then
        Write_quadword_loop mem Address Data length1 (index + 16)
          (hw_call (HAL_FLASH_Program (QuadWord (read_bytes mem (Data + index) 16))
                      (Address + index)) s)
      else Some s)"

declare Write_quadword_loop.simps [code]

partial_function (option) Write_doubleword_loop ::
  "memory \<Rightarrow> 32 word \<Rightarrow> 32 word \<Rightarrow> 32 word \<Rightarrow> 32 word \<Rightarrow> flash_state \<Rightarrow> flash_state option" where
  "Write_doubleword_loop mem Address Data length1 index s =
     (if index < length1 then
        Write_doubleword_loop mem Address Data length1 (index + 8)
          (hw_call (HAL_FLASH_Program (DoubleWord (read_u64 mem (Data + index)))
                      (Address + index)) s)
      else Some s)"

declare Write_doubleword_loop.simps [code]

definition OPENBL_FLASH_Write ::
  "flash_config \<Rightarrow> memory \<Rightarrow> 32 word \<Rightarrow> 32 word \<Rightarrow> 32 word \<Rightarrow> flash_state \<Rightarrow> flash_state option" where
  "OPENBL_FLASH_Write cfg mem Address Data DataLength s =
     (if FLASH_TYPEPROGRAM_QUADWORD cfg then
        (let remainder = DataLength AND 0xF;
             length1 = (if remainder \<noteq> 0 then DataLength AND 0xFFFFFFF0 else DataLength);
             remainder_data =
               (if remainder \<noteq> 0 then
                  fill_upper (unat remainder)
                    (copy_remaining mem (Data + length1) (unat remainder) 0 (replicate 16 0))
                else replicate 16 0)
         in case Write_quadword_loop mem Address Data length1 0 (OPENBL_FLASH_Unlock s) of
              None \<Rightarrow> None
            | Some s1 \<Rightarrow>
                Some (OPENBL_FLASH_Lock
                        (if remainder \<noteq> 0 then
                           hw_call (HAL_FLASH_Program (QuadWord remainder_data)
                                      (Address + length1)) s1
                         else s1)))
      else
        (let length1 = (if DataLength AND 7 \<noteq> 0 then (DataLength AND 0xFFFFFFF8) + 8
                       else DataLength)
         in case Write_doubleword_loop mem Address Data length1 0 (OPENBL_FLASH_Unlock s) of
              None \<Rightarrow> None
            | Some s1 \<Rightarrow> Some (OPENBL_FLASH_Lock s1)))"

subsection \<open>The claims' vocabulary for the flash interface\<close>

text \<open>The number of bytes the program calls of a history write to the flash.\<close>

fun programmed_bytes :: "hw_event list \<Rightarrow> nat" where
  "programmed_bytes [] = 0"
| "programmed_bytes (HAL_FLASH_Program (DoubleWord d) a # evs) = 8 + programmed_bytes evs"
| "programmed_bytes (HAL_FLASH_Program (QuadWord bs) a # evs) = 16 + programmed_bytes evs"
| "programmed_bytes (ev # evs) = programmed_bytes evs"

text \<open>The events that start an erase, and those that program the option bytes.\<close>

fun is_erase_start :: "flash_config \<Rightarrow> hw_event \<Rightarrow> bool" where
  "is_erase_start cfg (FLASH_PageErase page banks) = True"
| "is_erase_start cfg (SET_BIT r bits) = (r = FLASH_CR)"
| "is_erase_start cfg ev = False"

fun is_ob_program :: "hw_event \<Rightarrow> bool" where
  "is_ob_program (HAL_FLASHEx_OBProgram t l) = True"
| "is_ob_program ev = False"

fun page_erases :: "hw_event list \<Rightarrow> (32 word \<times> 32 word) list" where
  "page_erases [] = []"
| "page_erases (FLASH_PageErase page banks # evs) = (page, banks) # page_erases evs"
| "page_erases (ev # evs) = page_erases evs"

subsection \<open>An example part\<close>

text \<open>
  A device that is never busy, has no error flag and no cache on, and whose HAL waits
  return \<^verbatim>\<open>HAL_OK\<close>; one whose status register has an error flag latched; one that
  is busy at every poll; and one whose HAL wait fails.
\<close>

definition dev_idle :: device where
  "dev_idle tr = 0"

definition dev_error :: device where
  "dev_error tr = (case last tr of RegRead FLASH_SR \<Rightarrow> 0x10 | _ \<Rightarrow> 0)"

definition dev_busy :: device where
  "dev_busy tr = (case last tr of HAL_FLASH_GET_FLAG f \<Rightarrow> 1 | _ \<Rightarrow> 0)"

definition dev_hal_error :: device where
  "dev_hal_error tr = (case last tr of FLASH_WaitForLastOperation t \<Rightarrow> 1 | _ \<Rightarrow> 0)"

text \<open>
  Example values of the constants (those of a dual-bank part with double-word
  programming).

  Modelled from the spec: \<^verbatim>\<open>flash_interface.h\<close>, which defines the mass-erase selectors
  \<^verbatim>\<open>FLASH_MASS_ERASE\<close>, \<^verbatim>\<open>FLASH_BANK1_ERASE\<close> and \<^verbatim>\<open>FLASH_BANK2_ERASE\<close>, is not among the
  sources; the specification gives them as 0 (all banks), 1 (bank one) and 2 (bank
  two).
\<close>

definition example_flash_config :: flash_config where
  "example_flash_config =
     \<lparr>FLASH_OPTR_DBANK = True,
      FLASH_TYPEPROGRAM_QUADWORD = False,
      I2Cx = True,
      ARM_FEATURE_CMSE_3 = False,
      FLASH_FLAG_BSY = 0x10000,
      FLASH_FLAG_EOP = 0x1,
      FLASH_FLAG_SR_ERRORS = 0xC3FA,
      FLASH_FLAG_ALL_ERRORS = 0xC3FA,
      FLASH_FLAG_OPTWERR = 0x2000,
      FLASH_ACR_ICEN = 0x200,
      FLASH_ACR_DCEN = 0x400,
      FLASH_CR_MER1 = 0x4,
      FLASH_CR_STRT = 0x10000,
      FLASH_CR_PER = 0x2,
      FLASH_CR_PNB = 0x3F8,
      PROGRAM_TIMEOUT = 0xFFFFF,
      FLASH_TIMEOUT_VALUE = 1000,
      FLASH_BANK_1 = 0x1,
      FLASH_BANK_2 = 0x2,
      FLASH_MASS_ERASE = 0,
      FLASH_BANK1_ERASE = 1,
      FLASH_BANK2_ERASE = 2,
      HAL_FLASH_ERROR_NONE = 0,
      OB_RDP_LEVEL2 = 0xCC,
      OPTIONBYTE_RDP = 0x2\<rparr>"

definition example_quadword_config :: flash_config where
  "example_quadword_config = example_flash_config\<lparr>FLASH_TYPEPROGRAM_QUADWORD := True\<rparr>"

text \<open>The globals as their initialisers leave them, with an empty history.\<close>

definition flash_reset :: "flash_config \<Rightarrow> flash_state" where
  "flash_reset cfg =
     \<lparr>Lock = HAL_UNLOCKED,
      ErrorCode = HAL_FLASH_ERROR_NONE cfg,
      CacheToReactivate = FLASH_CACHE_DISABLED,
      Flash_BusyState = FLASH_BUSY_STATE_DISABLED,
      trace = []\<rparr>"

text \<open>
  A memory that holds \<open>bytes\<close> from address \<open>base\<close> on and \<open>fill\<close> everywhere else, and
  the locals of the erase functions before they are assigned.
\<close>

definition mem_of :: "32 word \<Rightarrow> 8 word list \<Rightarrow> 8 word \<Rightarrow> memory" where
  "mem_of base bytes fill a =
     (if unat (a - base) < length bytes then bytes ! unat (a - base) else fill)"

definition stack_garbage :: FLASH_EraseInitTypeDef where
  "stack_garbage =
     \<lparr>TypeErase = FLASH_TYPEERASE_PAGES, Banks = 0xDEAD, Page = 0xBEEF, NbPages = 0xF00D\<rparr>"


text \<open>
  A device on which a page erase fails: the status register has an error flag latched
  from the first page erase on, and none before.
\<close>

definition dev_error_after_erase :: device where
  "dev_error_after_erase tr =
     (case last tr of
        RegRead FLASH_SR \<Rightarrow> (if page_erases tr = [] then 0 else 0x10)
      | _ \<Rightarrow> 0)"

text \<open>A device whose option bytes read as read-out protection level 2.\<close>

definition dev_level2 :: device where
  "dev_level2 tr = (case last tr of HAL_FLASHEx_OBGetConfig \<Rightarrow> 0xCC | _ \<Rightarrow> 0)"

section \<open>Properties of the registry and the dispatcher\<close>

subsection \<open>Auxiliary facts\<close>

lemma unat_succ_lt: "(x :: 32 word) < y \<Longrightarrow> unat (x + 1) = Suc (unat x)"
proof -
  assume "x < y"
  then have "unat x < unat y" by (simp add: word_less_nat_alt)
  moreover have "unat y < 2 ^ 32" using unsigned_less [of y] by simp
  ultimately show ?thesis by (simp add: unat_word_ariths)
qed

lemma handle_copy: "\<lparr>p_Ops = p_Ops h, p_Cmd = p_Cmd h\<rparr> = (h :: 'w OPENBL_HandleTypeDef)"
  by simp

lemma register_all_fills:
  "unat (NumberOfInterfaces s) + length hs \<le> unat (INTERFACES_SUPPORTED cfg) \<Longrightarrow>
   length (a_InterfacesTable s) = unat (INTERFACES_SUPPORTED cfg) \<Longrightarrow>
   fst (register_all cfg hs s) = replicate (length hs) SUCCESS \<and>
   unat (NumberOfInterfaces (snd (register_all cfg hs s))) = unat (NumberOfInterfaces s) + length hs \<and>
   a_InterfacesTable (snd (register_all cfg hs s)) =
     take (unat (NumberOfInterfaces s)) (a_InterfacesTable s) @ hs @
     drop (unat (NumberOfInterfaces s) + length hs) (a_InterfacesTable s) \<and>
   p_Interface (snd (register_all cfg hs s)) = p_Interface s \<and>
   interface_detected (snd (register_all cfg hs s)) = interface_detected s"
proof (induction hs arbitrary: s)
  case Nil
  then show ?case by simp
next
  case (Cons h hs)
  let ?n = "unat (NumberOfInterfaces s)"
  let ?s1 = "snd (OPENBL_RegisterInterface cfg h s)"
  have lt: "NumberOfInterfaces s < INTERFACES_SUPPORTED cfg"
    using Cons.prems(1) by (simp add: word_less_nat_alt)
  have n1: "unat (NumberOfInterfaces s + 1) = Suc ?n"
    using lt by (rule unat_succ_lt)
  have s1: "OPENBL_RegisterInterface cfg h s =
      (SUCCESS, s\<lparr>a_InterfacesTable := (a_InterfacesTable s)[?n := h],
                  NumberOfInterfaces := NumberOfInterfaces s + 1\<rparr>)"
    using lt by (simp add: OPENBL_RegisterInterface_def handle_copy)
  have p1: "unat (NumberOfInterfaces ?s1) + length hs \<le> unat (INTERFACES_SUPPORTED cfg)"
    using Cons.prems(1) by (simp add: s1 n1)
  have p2: "length (a_InterfacesTable ?s1) = unat (INTERFACES_SUPPORTED cfg)"
    using Cons.prems(2) by (simp add: s1)
  note IH = Cons.IH [OF p1 p2]
  have nlt: "?n < length (a_InterfacesTable s)"
    using Cons.prems by simp
  have tbl: "take (Suc ?n) ((a_InterfacesTable s)[?n := h]) = take ?n (a_InterfacesTable s) @ [h]"
    using nlt by (simp add: take_Suc_conv_app_nth)
  show ?case
    using IH by (simp add: s1 n1 tbl split_beta)
qed


lemma command_process_lookup:
  assumes "p_Interface s = Some i" and "i < length (a_InterfacesTable s)"
    and "p_Ops (a_InterfacesTable s ! i) = Some ops"
    and "GetCommandOpcode ops = Some get_opcode"
    and "get_opcode w = (opcode, w1)"
  shows "OPENBL_CommandProcess cfg s w =
     (case map_of (command_table cfg) opcode of
        None \<Rightarrow> Some (send_nack cfg ops w1)
      | Some field \<Rightarrow> command_case cfg (a_InterfacesTable s ! i) ops field w1)"
  using assms by (simp add: OPENBL_CommandProcess_def command_table_def)


lemma erase_opcodes_same_field:
  assumes "distinct (map fst (command_table cfg :: (8 word \<times> ('w OPENBL_CommandsTypeDef \<Rightarrow> ('w \<Rightarrow> 'w) option)) list))"
  shows "map_of (command_table cfg) (CMD_EXT_ERASE_MEMORY cfg) = Some (EraseMemory :: 'w OPENBL_CommandsTypeDef \<Rightarrow> ('w \<Rightarrow> 'w) option)"
    and "map_of (command_table cfg) (CMD_LEG_ERASE_MEMORY cfg) = Some (EraseMemory :: 'w OPENBL_CommandsTypeDef \<Rightarrow> ('w \<Rightarrow> 'w) option)"
proof -
  have a: "(CMD_EXT_ERASE_MEMORY cfg, EraseMemory) \<in> set (command_table cfg :: (8 word \<times> ('w OPENBL_CommandsTypeDef \<Rightarrow> ('w \<Rightarrow> 'w) option)) list)"
    by (simp add: command_table_def)
  have b: "(CMD_LEG_ERASE_MEMORY cfg, EraseMemory) \<in> set (command_table cfg :: (8 word \<times> ('w OPENBL_CommandsTypeDef \<Rightarrow> ('w \<Rightarrow> 'w) option)) list)"
    by (simp add: command_table_def)
  show "map_of (command_table cfg) (CMD_EXT_ERASE_MEMORY cfg) = Some (EraseMemory :: 'w OPENBL_CommandsTypeDef \<Rightarrow> ('w \<Rightarrow> 'w) option)"
    by (rule map_of_is_SomeI [OF assms a])
  show "map_of (command_table cfg) (CMD_LEG_ERASE_MEMORY cfg) = Some (EraseMemory :: 'w OPENBL_CommandsTypeDef \<Rightarrow> ('w \<Rightarrow> 'w) option)"
    by (rule map_of_is_SomeI [OF assms b])
qed






lemma handler_detected:
  "interface_detected s = 1 \<Longrightarrow>
     OPENBL_Handler cfg s w =
       (case OPENBL_CommandProcess cfg s w of None \<Rightarrow> None | Some w2 \<Rightarrow> Some (s, w2))"
  by (simp add: OPENBL_Handler_def)




subsection \<open>Claim C7: opcodes without a handler\<close>

text \<open>
  Claim C7. While a transport is detected (\<open>interface_detected = 1\<close>, \<open>p_Interface\<close>
  pointing to a registered transport with a get-opcode capability), for every opcode
  the transport delivers that is unknown or whose handler is absent from the
  transport's command table, \<^verbatim>\<open>OPENBL_Handler\<close> does exactly this: it calls the
  send-byte capability once with \<open>NACK_BYTE\<close> when the capability is present, and
  nothing when it is absent; no handler runs, so the system is otherwise as the
  get-opcode call left it, and the dispatcher's own state is unchanged. The
  extended-erase and legacy-erase opcodes both run the \<open>EraseMemory\<close> handler (the
  case labels of the \<^verbatim>\<open>switch\<close> being distinct, as C requires).
\<close>

theorem unsupported_opcode_nack:
  fixes s :: "'w core_state"
  assumes det: "interface_detected s = 1"
    and pi: "p_Interface s = Some i" and il: "i < length (a_InterfacesTable s)"
    and po: "p_Ops (a_InterfacesTable s ! i) = Some ops"
    and go: "GetCommandOpcode ops = Some get_opcode"
  shows "\<forall>w. case get_opcode w of
      (opcode, w1) \<Rightarrow>
        ((map_of (command_table cfg :: (8 word \<times> ('w OPENBL_CommandsTypeDef \<Rightarrow> ('w \<Rightarrow> 'w) option)) list) opcode = None \<or>
          (\<exists>field cmds. map_of (command_table cfg) opcode = Some field \<and>
              p_Cmd (a_InterfacesTable s ! i) = Some cmds \<and> field cmds = None)) \<longrightarrow>
         OPENBL_Handler cfg s w =
           Some (s, case SendByte ops of Some send \<Rightarrow> send (NACK_BYTE cfg) w1 | None \<Rightarrow> w1)) \<and>
        (distinct (map fst (command_table cfg :: (8 word \<times> ('w OPENBL_CommandsTypeDef \<Rightarrow> ('w \<Rightarrow> 'w) option)) list)) \<and>
         (opcode = CMD_EXT_ERASE_MEMORY cfg \<or> opcode = CMD_LEG_ERASE_MEMORY cfg) \<longrightarrow>
         OPENBL_Handler cfg s w =
           (case p_Cmd (a_InterfacesTable s ! i) of
              None \<Rightarrow> None
            | Some cmds \<Rightarrow>
                (case EraseMemory cmds of
                   Some handler \<Rightarrow> Some (s, handler w1)
                 | None \<Rightarrow> Some (s, case SendByte ops of Some send \<Rightarrow> send (NACK_BYTE cfg) w1 | None \<Rightarrow> w1))))"
proof
  fix w :: 'w
  obtain opcode w1 where gw: "get_opcode w = (opcode, w1)"
    by (cases "get_opcode w")
  note L = command_process_lookup [OF pi il po go gw, of cfg]
  have H: "OPENBL_Handler cfg s w =
       (case OPENBL_CommandProcess cfg s w of None \<Rightarrow> None | Some w2 \<Rightarrow> Some (s, w2))"
    by (rule handler_detected [OF det])
  have A: "OPENBL_Handler cfg s w =
           Some (s, case SendByte ops of Some send \<Rightarrow> send (NACK_BYTE cfg) w1 | None \<Rightarrow> w1)"
    if "map_of (command_table cfg :: (8 word \<times> ('w OPENBL_CommandsTypeDef \<Rightarrow> ('w \<Rightarrow> 'w) option)) list) opcode = None \<or>
          (\<exists>field cmds. map_of (command_table cfg) opcode = Some field \<and>
              p_Cmd (a_InterfacesTable s ! i) = Some cmds \<and> field cmds = None)"
    using that by (auto simp: H L command_case_def send_nack_def)
  have B: "OPENBL_Handler cfg s w =
           (case p_Cmd (a_InterfacesTable s ! i) of
              None \<Rightarrow> None
            | Some cmds \<Rightarrow>
                (case EraseMemory cmds of
                   Some handler \<Rightarrow> Some (s, handler w1)
                 | None \<Rightarrow> Some (s, case SendByte ops of Some send \<Rightarrow> send (NACK_BYTE cfg) w1 | None \<Rightarrow> w1)))"
    if d: "distinct (map fst (command_table cfg :: (8 word \<times> ('w OPENBL_CommandsTypeDef \<Rightarrow> ('w \<Rightarrow> 'w) option)) list))"
      and e: "opcode = CMD_EXT_ERASE_MEMORY cfg \<or> opcode = CMD_LEG_ERASE_MEMORY cfg"
  proof -
    have "map_of (command_table cfg) opcode = Some (EraseMemory :: 'w OPENBL_CommandsTypeDef \<Rightarrow> ('w \<Rightarrow> 'w) option)"
      using e erase_opcodes_same_field [OF d] by auto
    then show ?thesis
      by (simp add: H L command_case_def send_nack_def split: option.splits)
  qed
  show "case get_opcode w of
      (opcode, w1) \<Rightarrow>
        ((map_of (command_table cfg :: (8 word \<times> ('w OPENBL_CommandsTypeDef \<Rightarrow> ('w \<Rightarrow> 'w) option)) list) opcode = None \<or>
          (\<exists>field cmds. map_of (command_table cfg) opcode = Some field \<and>
              p_Cmd (a_InterfacesTable s ! i) = Some cmds \<and> field cmds = None)) \<longrightarrow>
         OPENBL_Handler cfg s w =
           Some (s, case SendByte ops of Some send \<Rightarrow> send (NACK_BYTE cfg) w1 | None \<Rightarrow> w1)) \<and>
        (distinct (map fst (command_table cfg :: (8 word \<times> ('w OPENBL_CommandsTypeDef \<Rightarrow> ('w \<Rightarrow> 'w) option)) list)) \<and>
         (opcode = CMD_EXT_ERASE_MEMORY cfg \<or> opcode = CMD_LEG_ERASE_MEMORY cfg) \<longrightarrow>
         OPENBL_Handler cfg s w =
           (case p_Cmd (a_InterfacesTable s ! i) of
              None \<Rightarrow> None
            | Some cmds \<Rightarrow>
                (case EraseMemory cmds of
                   Some handler \<Rightarrow> Some (s, handler w1)
                 | None \<Rightarrow> Some (s, case SendByte ops of Some send \<Rightarrow> send (NACK_BYTE cfg) w1 | None \<Rightarrow> w1))))"
    using A B by (simp add: gw)
qed

text \<open>
  On the example system: an unknown opcode and a known opcode without a handler are
  answered by one \<open>0x1F\<close>; both erase opcodes run the erase handler.
\<close>

theorem unsupported_opcode_nack_witness:
  "map_of (command_table example_core_config :: (8 word \<times> (wire OPENBL_CommandsTypeDef \<Rightarrow> (wire \<Rightarrow> wire) option)) list) 0x7F = None \<and>
   OPENBL_Handler example_core_config example_detected ([0x7F], []) =
     Some (example_detected, ([], [0x1F])) \<and>
   map_of (command_table example_core_config) 0x11 =
     Some (ReadMemory :: wire OPENBL_CommandsTypeDef \<Rightarrow> (wire \<Rightarrow> wire) option) \<and>
   ReadMemory example_cmds = None \<and>
   OPENBL_Handler example_core_config example_detected ([0x11], []) =
     Some (example_detected, ([], [0x1F])) \<and>
   distinct (map fst (command_table example_core_config :: (8 word \<times> (wire OPENBL_CommandsTypeDef \<Rightarrow> (wire \<Rightarrow> wire) option)) list)) \<and>
   OPENBL_Handler example_core_config example_detected ([0x44], []) =
     Some (example_detected, ([], [0xEE])) \<and>
   OPENBL_Handler example_core_config example_detected ([0x43], []) =
     Some (example_detected, ([], [0xEE]))"
proof -
  let ?get = "\<lambda>w :: wire. case fst w of [] \<Rightarrow> (0 :: 8 word, w) | b # bs \<Rightarrow> (b, (bs, snd w))"
  have det: "interface_detected example_detected = 1"
    by (simp add: example_detected_def)
  have pi: "p_Interface example_detected = Some 2"
    by (simp add: example_detected_def)
  have il: "2 < length (a_InterfacesTable example_detected)"
    by (simp add: example_detected_def example_registry_def)
  have po: "p_Ops (a_InterfacesTable example_detected ! 2) = Some (example_ops 0xA2 1)"
    by (simp add: example_detected_def example_registry_def example_transport_def)
  have go: "GetCommandOpcode (example_ops 0xA2 1) = Some ?get"
    by (simp add: example_ops_def)
  have pc: "p_Cmd (a_InterfacesTable example_detected ! 2) = Some example_cmds"
    by (simp add: example_detected_def example_registry_def example_transport_def)
  have sb: "SendByte (example_ops 0xA2 1) = Some (\<lambda>b w. (fst w, snd w @ [b]))"
    by (simp add: example_ops_def)
  have nk: "NACK_BYTE example_core_config = 0x1F"
    by (simp add: example_core_config_def)
  have unk: "map_of (command_table example_core_config :: (8 word \<times> (wire OPENBL_CommandsTypeDef \<Rightarrow> (wire \<Rightarrow> wire) option)) list) 0x7F = None"
    by (simp add: command_table_def example_core_config_def)
  have rd: "map_of (command_table example_core_config) 0x11 = Some (ReadMemory :: wire OPENBL_CommandsTypeDef \<Rightarrow> (wire \<Rightarrow> wire) option)"
    by (simp add: command_table_def example_core_config_def)
  have rn: "ReadMemory example_cmds = None"
    by (simp add: example_cmds_def)
  have er: "EraseMemory example_cmds = Some (\<lambda>w. (fst w, snd w @ [0xEE]))"
    by (simp add: example_cmds_def)
  have ex: "\<exists>field cmds. map_of (command_table example_core_config) 0x11 = Some field \<and>
              p_Cmd (a_InterfacesTable example_detected ! 2) = Some cmds \<and> field cmds = None"
    using rd pc rn by blast
  have di: "distinct (map fst (command_table example_core_config :: (8 word \<times> (wire OPENBL_CommandsTypeDef \<Rightarrow> (wire \<Rightarrow> wire) option)) list))"
    by (simp add: command_table_def example_core_config_def)
  have ee: "CMD_EXT_ERASE_MEMORY example_core_config = 0x44"
    and el: "CMD_LEG_ERASE_MEMORY example_core_config = 0x43"
    by (simp_all add: example_core_config_def)
  note T = unsupported_opcode_nack [OF det pi il po go, of example_core_config]
  have a: "OPENBL_Handler example_core_config example_detected ([0x7F], []) =
     Some (example_detected, ([], [0x1F]))"
    using T [THEN spec, of "([0x7F], [])"] unk by (simp add: sb nk)
  have b: "OPENBL_Handler example_core_config example_detected ([0x11], []) =
     Some (example_detected, ([], [0x1F]))"
    using T [THEN spec, of "([0x11], [])"] ex by (simp add: sb nk)
  have c: "OPENBL_Handler example_core_config example_detected ([0x44], []) =
     Some (example_detected, ([], [0xEE]))"
    using T [THEN spec, of "([0x44], [])"] di by (simp add: pc er ee el)
  have d: "OPENBL_Handler example_core_config example_detected ([0x43], []) =
     Some (example_detected, ([], [0xEE]))"
    using T [THEN spec, of "([0x43], [])"] di by (simp add: pc er ee el)
  show ?thesis
    by (intro conjI unk a rd rn b di c d)
qed

subsection \<open>Claim C8: registration past capacity\<close>

text \<open>
  Claim C8. When the registry already holds \<open>INTERFACES_SUPPORTED\<close> entries, one more
  call of \<^verbatim>\<open>OPENBL_RegisterInterface\<close> returns \<open>ERROR\<close> and leaves the registry as it
  was. This holds of every full registry, and in particular of the one reached from
  the zero-initialised statics by \<open>INTERFACES_SUPPORTED\<close> registrations: those all
  succeed, the table then holds exactly the registered handles, and the next
  registration is refused without changing anything.
\<close>

theorem register_past_capacity:
  "(NumberOfInterfaces s = INTERFACES_SUPPORTED cfg \<longrightarrow>
      OPENBL_RegisterInterface cfg h s = (ERROR, s)) \<and>
   (length hs = unat (INTERFACES_SUPPORTED cfg) \<longrightarrow>
      (let (sts, sN) = register_all cfg hs (core_reset cfg)
       in sts = replicate (length hs) SUCCESS \<and>
          NumberOfInterfaces sN = INTERFACES_SUPPORTED cfg \<and>
          a_InterfacesTable sN = hs \<and>
          OPENBL_RegisterInterface cfg h sN = (ERROR, sN)))"
proof (intro conjI impI)
  assume "NumberOfInterfaces s = INTERFACES_SUPPORTED cfg"
  then show "OPENBL_RegisterInterface cfg h s = (ERROR, s)"
    by (simp add: OPENBL_RegisterInterface_def)
next
  assume len: "length hs = unat (INTERFACES_SUPPORTED cfg)"
  let ?r = "register_all cfg hs (core_reset cfg :: 'a core_state)"
  have a: "unat (NumberOfInterfaces (core_reset cfg :: 'a core_state)) + length hs
            \<le> unat (INTERFACES_SUPPORTED cfg)"
    using len by (simp add: core_reset_def)
  have b: "length (a_InterfacesTable (core_reset cfg :: 'a core_state)) = unat (INTERFACES_SUPPORTED cfg)"
    by (simp add: core_reset_def)
  note F = register_all_fills [OF a b]
  have n: "NumberOfInterfaces (snd ?r) = INTERFACES_SUPPORTED cfg"
    using F len by (simp add: core_reset_def word_unat_eq_iff)
  have t: "a_InterfacesTable (snd ?r) = hs"
    using F len by (simp add: core_reset_def)
  have e: "OPENBL_RegisterInterface cfg h (snd ?r) = (ERROR, snd ?r)"
    using n by (simp add: OPENBL_RegisterInterface_def)
  show "let (sts, sN) = ?r
       in sts = replicate (length hs) SUCCESS \<and>
          NumberOfInterfaces sN = INTERFACES_SUPPORTED cfg \<and>
          a_InterfacesTable sN = hs \<and>
          OPENBL_RegisterInterface cfg h sN = (ERROR, sN)"
    using F n t e by (simp add: split_beta)
qed

text \<open>The example table of four is filled by four handles; the fifth is refused.\<close>

theorem register_past_capacity_witness:
  "length example_handles = unat (INTERFACES_SUPPORTED example_core_config) \<and>
   NumberOfInterfaces (snd (register_all example_core_config example_handles (core_reset example_core_config)))
     = INTERFACES_SUPPORTED example_core_config \<and>
   a_InterfacesTable (snd (register_all example_core_config example_handles (core_reset example_core_config)))
     = example_handles \<and>
   fst (OPENBL_RegisterInterface example_core_config (example_transport 0xA4 1)
         (snd (register_all example_core_config example_handles (core_reset example_core_config)))) = ERROR \<and>
   snd (OPENBL_RegisterInterface example_core_config (example_transport 0xA4 1)
         (snd (register_all example_core_config example_handles (core_reset example_core_config)))) =
     snd (register_all example_core_config example_handles (core_reset example_core_config))"
proof -
  have len: "length example_handles = unat (INTERFACES_SUPPORTED example_core_config)"
    by (simp add: example_handles_def example_core_config_def)
  have n: "NumberOfInterfaces (snd (register_all example_core_config example_handles (core_reset example_core_config)))
     = INTERFACES_SUPPORTED example_core_config"
    using register_past_capacity [of _ example_core_config _ example_handles] len
    by (simp add: split_beta Let_def)
  show ?thesis
    using register_past_capacity
      [of "snd (register_all example_core_config example_handles (core_reset example_core_config))"
          example_core_config "example_transport 0xA4 1" example_handles] len n
    by (simp add: split_beta Let_def)
qed

subsection \<open>Claim C9: detection order and its terminal state\<close>






section \<open>Properties of the flash interface\<close>

subsection \<open>Claim C2: a request below read-out protection level 2\<close>

text \<open>
  Claim C2 says that at read-out protection level 2 a request for a lower level is
  rejected and writes no option byte. The code does not read the current level: its
  guard is on the requested level. On a device whose option bytes read as level 2
  (\<open>0xCC\<close>), the request for level 0 (\<open>0xAA\<close>) unlocks the option bytes and issues the
  program call.
\<close>

theorem rdp_lower_level_counterexample:
  "fst (OPENBL_FLASH_GetReadOutProtectionLevel dev_level2 (flash_reset example_flash_config))
     = OB_RDP_LEVEL2 example_flash_config \<and>
   (0xAA :: 32 word) \<noteq> OB_RDP_LEVEL2 example_flash_config \<and>
   trace (OPENBL_FLASH_SetReadOutProtectionLevel example_flash_config 0xAA
            (snd (OPENBL_FLASH_GetReadOutProtectionLevel dev_level2
                    (flash_reset example_flash_config)))) =
     [HAL_FLASHEx_OBGetConfig, HAL_FLASH_Unlock, HAL_FLASH_OB_Unlock,
      HAL_FLASHEx_OBProgram 2 0xAA, Common_SetPostProcessingCallback OPENBL_OB_Launch]"
  by (simp add: OPENBL_FLASH_GetReadOutProtectionLevel_def hw_read_def dev_level2_def
      flash_reset_def example_flash_config_def OPENBL_FLASH_SetReadOutProtectionLevel_def
      OPENBL_FLASH_OB_Unlock_def hw_call_def)

text \<open>
  Claim C2 as amended. \<^verbatim>\<open>OPENBL_FLASH_SetReadOutProtectionLevel\<close> decides on the
  requested level alone: a request for level 2 issues no option-byte program call; a
  request for any other level, 0 and 1 included, unlocks the option bytes and issues
  the program call with that level, whatever the current level is. Nothing but the
  history of events changes, and the function returns no status.
\<close>

theorem rdp_gate_on_requested_level:
  "(Level = OB_RDP_LEVEL2 cfg \<longrightarrow>
      OPENBL_FLASH_SetReadOutProtectionLevel cfg Level s =
        s\<lparr>trace := trace s @ [Common_SetPostProcessingCallback OPENBL_OB_Launch]\<rparr>) \<and>
   (Level \<noteq> OB_RDP_LEVEL2 cfg \<longrightarrow>
      OPENBL_FLASH_SetReadOutProtectionLevel cfg Level s =
        s\<lparr>trace := trace s @
             [HAL_FLASH_Unlock, HAL_FLASH_OB_Unlock,
              HAL_FLASHEx_OBProgram (OPTIONBYTE_RDP cfg) Level,
              Common_SetPostProcessingCallback OPENBL_OB_Launch]\<rparr>)"
  by (simp add: OPENBL_FLASH_SetReadOutProtectionLevel_def OPENBL_FLASH_OB_Unlock_def hw_call_def)

theorem rdp_gate_on_requested_level_witness:
  "(0xCC :: 32 word) = OB_RDP_LEVEL2 example_flash_config \<and>
   OPENBL_FLASH_SetReadOutProtectionLevel example_flash_config 0xCC
       (flash_reset example_flash_config) =
     (flash_reset example_flash_config)
       \<lparr>trace := [Common_SetPostProcessingCallback OPENBL_OB_Launch]\<rparr> \<and>
   (0xBB :: 32 word) \<noteq> OB_RDP_LEVEL2 example_flash_config \<and>
   OPENBL_FLASH_SetReadOutProtectionLevel example_flash_config 0xBB
       (flash_reset example_flash_config) =
     (flash_reset example_flash_config)
       \<lparr>trace := [HAL_FLASH_Unlock, HAL_FLASH_OB_Unlock, HAL_FLASHEx_OBProgram 2 0xBB,
                  Common_SetPostProcessingCallback OPENBL_OB_Launch]\<rparr>"
proof -
  have a: "(0xCC :: 32 word) = OB_RDP_LEVEL2 example_flash_config"
    and b: "(0xBB :: 32 word) \<noteq> OB_RDP_LEVEL2 example_flash_config"
    and c: "OPTIONBYTE_RDP example_flash_config = 2"
    and d: "trace (flash_reset example_flash_config) = []"
    by (simp_all add: example_flash_config_def flash_reset_def)
  show ?thesis
    using rdp_gate_on_requested_level [of "0xCC" example_flash_config "flash_reset example_flash_config"]
      rdp_gate_on_requested_level [of "0xBB" example_flash_config "flash_reset example_flash_config"]
      a b
    by (simp add: c d)
qed

subsection \<open>Claim C10: the reset callback is always registered\<close>

text \<open>
  Claim C10. Every call of \<^verbatim>\<open>OPENBL_FLASH_SetReadOutProtectionLevel\<close> ends by registering
  \<^verbatim>\<open>OPENBL_OB_Launch\<close> as the post-processing callback, whatever the level requested;
  the request for level 2, which programs no option byte, does nothing else.
\<close>

theorem rdp_always_registers_launch:
  "(\<exists>evs. trace (OPENBL_FLASH_SetReadOutProtectionLevel cfg Level s) =
            trace s @ evs @ [Common_SetPostProcessingCallback OPENBL_OB_Launch]) \<and>
   trace (OPENBL_FLASH_SetReadOutProtectionLevel cfg (OB_RDP_LEVEL2 cfg) s) =
     trace s @ [Common_SetPostProcessingCallback OPENBL_OB_Launch]"
  by (simp add: OPENBL_FLASH_SetReadOutProtectionLevel_def OPENBL_FLASH_OB_Unlock_def hw_call_def)

subsection \<open>Claim C1: the result of a page erase\<close>

text \<open>
  One turn of the loop of \<^verbatim>\<open>OPENBL_FLASH_Erase\<close> on a page index outside the banks, for
  any payload and any device: the page is skipped, nothing is accessed and \<open>errors\<close>
  is as before.
\<close>

lemma erase_loop_skips_out_of_range_page:
  assumes "counter < unat pages_number" and "counter < unat (DataLength div 2)"
    and "\<not> (ucast (read_u16 mem p_Data) :: 32 word) \<le> 127"
    and "\<not> (FLASH_OPTR_DBANK cfg \<and> (ucast (read_u16 mem p_Data) :: 32 word) \<le> 255)"
  shows "Erase_loop cfg dev mem pages_number DataLength counter p_Data erase_init_struct
           page_error errors status s =
         Erase_loop cfg dev mem pages_number DataLength (counter + 1) (p_Data + 2)
           (erase_init_struct\<lparr>Page := ucast (read_u16 mem p_Data)\<rparr>) page_error errors
           SUCCESS s"
proof -
  have x: "(FLASH_OPTR_DBANK cfg \<and> (ucast (read_u16 mem p_Data) :: 32 word) \<le> 255) = False"
    using assms(4) by simp
  show ?thesis
    using assms(1-3)
    by (subst Erase_loop.simps) (simp add: Let_def x)
qed

text \<open>
  Claim C1 says that \<^verbatim>\<open>OPENBL_FLASH_Erase\<close> returns \<open>ERROR\<close> exactly when a processed
  page failed, a page index outside the banks counting as a failure of that page; the
  header comment of the function says the same (\<open>ERROR\<close> when the value of a
  parameter is not OK). The code sets \<open>status = ERROR\<close> for such a page, skips the
  erase, and sets \<open>status\<close> back without counting the page in \<open>errors\<close>, from which
  alone the result is computed. For the payload "one page, index 256" nothing is
  erased and the result is \<open>SUCCESS\<close>.
\<close>

theorem erase_out_of_range_page_is_success:
  "OPENBL_FLASH_Erase example_flash_config dev_idle (mem_of 0x20000000 [1, 0, 0, 1] 0)
      0x20000000 4 stack_garbage 0 (flash_reset example_flash_config) =
    Some (SUCCESS,
          \<lparr>Lock = HAL_UNLOCKED, ErrorCode = 0, CacheToReactivate = FLASH_CACHE_DISABLED,
           Flash_BusyState = FLASH_BUSY_STATE_DISABLED,
           trace = [HAL_FLASH_Unlock, HAL_FLASH_CLEAR_FLAG 0xC3FA, HAL_FLASH_Lock]\<rparr>)"
  by code_simp

text \<open>
  The other half of the claim holds on the example part: with a HAL wait that fails,
  both pages of the payload are attempted and the result is \<open>ERROR\<close>.
\<close>

lemma erase_hardware_failure_is_error:
  "OPENBL_FLASH_Erase example_flash_config dev_hal_error
      (mem_of 0x20000000 [2, 0, 5, 0, 7, 0] 0) 0x20000000 6 stack_garbage 0
      (flash_reset example_flash_config) =
    Some (ERROR,
          \<lparr>Lock = HAL_UNLOCKED, ErrorCode = 0, CacheToReactivate = FLASH_CACHE_DISABLED,
           Flash_BusyState = FLASH_BUSY_STATE_DISABLED,
           trace =
             [HAL_FLASH_Unlock, HAL_FLASH_CLEAR_FLAG 0xC3FA,
              HAL_FLASH_GET_FLAG 0x10000, RegRead FLASH_SR, HAL_FLASH_GET_FLAG 1,
              READ_BIT FLASH_ACR 0x200, READ_BIT FLASH_ACR 0x400,
              FLASH_PageErase 5 1, FLASH_WaitForLastOperation 0xFFFFF,
              CLEAR_BIT FLASH_CR 0x3FA, FLASH_FlushCaches,
              HAL_FLASH_GET_FLAG 0x10000, RegRead FLASH_SR, HAL_FLASH_GET_FLAG 1,
              READ_BIT FLASH_ACR 0x200, READ_BIT FLASH_ACR 0x400,
              FLASH_PageErase 7 1, FLASH_WaitForLastOperation 0xFFFFF,
              CLEAR_BIT FLASH_CR 0x3FA, FLASH_FlushCaches,
              HAL_FLASH_Lock]\<rparr>)"
  by code_simp

subsection \<open>Claim C3: a page count larger than the payload\<close>

text \<open>
  Claim C3 says that when the declared page count exceeds what the payload holds,
  \<open>floor (availableBytes / 2)\<close> pages are processed, \<open>availableBytes\<close> being the bytes
  after the two bytes of the count. The loop is bounded by \<open>DataLength / 2\<close>, where
  \<open>DataLength\<close> is the size of the whole buffer, count included, and it starts after
  the count: it processes one page more than the payload holds and reads that page's
  index from the two bytes behind the buffer. For a buffer of four bytes that declares
  two pages and holds the index 5, the pages 5 and 0 are erased, the 0 being what lies
  behind the buffer.
\<close>

theorem erase_reads_index_behind_buffer:
  "OPENBL_FLASH_Erase example_flash_config dev_idle (mem_of 0x20000000 [2, 0, 5, 0] 0)
      0x20000000 4 stack_garbage 0 (flash_reset example_flash_config) =
    Some (SUCCESS,
          \<lparr>Lock = HAL_UNLOCKED, ErrorCode = 0, CacheToReactivate = FLASH_CACHE_DISABLED,
           Flash_BusyState = FLASH_BUSY_STATE_DISABLED,
           trace =
             [HAL_FLASH_Unlock, HAL_FLASH_CLEAR_FLAG 0xC3FA,
              HAL_FLASH_GET_FLAG 0x10000, RegRead FLASH_SR, HAL_FLASH_GET_FLAG 1,
              READ_BIT FLASH_ACR 0x200, READ_BIT FLASH_ACR 0x400,
              FLASH_PageErase 5 1, FLASH_WaitForLastOperation 0xFFFFF,
              CLEAR_BIT FLASH_CR 0x3FA, FLASH_FlushCaches,
              HAL_FLASH_GET_FLAG 0x10000, RegRead FLASH_SR, HAL_FLASH_GET_FLAG 1,
              READ_BIT FLASH_ACR 0x200, READ_BIT FLASH_ACR 0x400,
              FLASH_PageErase 0 1, FLASH_WaitForLastOperation 0xFFFFF,
              CLEAR_BIT FLASH_CR 0x3FA, FLASH_FlushCaches,
              HAL_FLASH_Lock]\<rparr>)"
  by code_simp

subsection \<open>Claim C5: the selector of a mass erase\<close>

text \<open>
  What holds of \<^verbatim>\<open>OPENBL_FLASH_MassErase\<close> whatever the selector constants are: a
  payload of fewer than two bytes, and a selector that is none of the accepted ones,
  give \<open>ERROR\<close> with the flash unlocked and locked again and nothing else done.
\<close>

lemma mass_erase_short_payload:
  "DataLength < 2 \<Longrightarrow>
     OPENBL_FLASH_MassErase cfg dev mem p_Data DataLength erase_init_struct page_error s =
       Some (ERROR, s\<lparr>trace := trace s @ [HAL_FLASH_Unlock, HAL_FLASH_Lock]\<rparr>)"
  by (simp add: OPENBL_FLASH_MassErase_def OPENBL_FLASH_Unlock_def OPENBL_FLASH_Lock_def
      hw_call_def not_le [symmetric])

lemma mass_erase_other_selector:
  assumes "2 \<le> DataLength"
    and "ucast (read_u16 mem p_Data) \<noteq> FLASH_MASS_ERASE cfg"
    and "ucast (read_u16 mem p_Data) \<noteq> FLASH_BANK1_ERASE cfg"
    and "\<not> (FLASH_OPTR_DBANK cfg \<and> ucast (read_u16 mem p_Data) = FLASH_BANK2_ERASE cfg)"
  shows "OPENBL_FLASH_MassErase cfg dev mem p_Data DataLength erase_init_struct page_error s =
       Some (ERROR, s\<lparr>trace := trace s @ [HAL_FLASH_Unlock, HAL_FLASH_Lock]\<rparr>)"
proof -
  have x: "(FLASH_OPTR_DBANK cfg \<and> ucast (read_u16 mem p_Data) = FLASH_BANK2_ERASE cfg) = False"
    using assms(4) by simp
  show ?thesis
    using assms(1-3)
    by (simp add: OPENBL_FLASH_MassErase_def OPENBL_FLASH_Unlock_def OPENBL_FLASH_Lock_def
        hw_call_def Let_def x)
qed

text \<open>
  The mass-erase branch of \<^verbatim>\<open>OPENBL_FLASH_ExtendedErase\<close> never reads the \<open>Banks\<close>
  field, so an accepted selector decides nothing: all accepted selectors run the same
  erase.
\<close>

lemma extended_erase_mass_ignores_banks:
  "TypeErase pEraseInit = FLASH_TYPEERASE_MASSERASE \<Longrightarrow>
     OPENBL_FLASH_ExtendedErase cfg dev (pEraseInit\<lparr>Banks := b\<rparr>) PageError s =
     OPENBL_FLASH_ExtendedErase cfg dev pEraseInit PageError s"
  by (simp add: OPENBL_FLASH_ExtendedErase_def cong: if_cong option.case_cong)

lemma mass_erase_accepted_selector:
  assumes "2 \<le> DataLength"
    and "ucast (read_u16 mem p_Data) = FLASH_MASS_ERASE cfg \<or>
         ucast (read_u16 mem p_Data) = FLASH_BANK1_ERASE cfg \<or>
         FLASH_OPTR_DBANK cfg \<and> ucast (read_u16 mem p_Data) = FLASH_BANK2_ERASE cfg"
  shows "OPENBL_FLASH_MassErase cfg dev mem p_Data DataLength erase_init_struct page_error s =
       (case OPENBL_FLASH_ExtendedErase cfg dev
               (erase_init_struct\<lparr>TypeErase := FLASH_TYPEERASE_MASSERASE\<rparr>) page_error
               (OPENBL_FLASH_Unlock s) of
          None \<Rightarrow> None
        | Some (hal, page_error1, s2) \<Rightarrow>
            Some (if hal \<noteq> HAL_OK then ERROR else SUCCESS, OPENBL_FLASH_Lock s2))"
proof -
  let ?init = "erase_init_struct\<lparr>TypeErase := FLASH_TYPEERASE_MASSERASE\<rparr>"
  have m: "TypeErase ?init = FLASH_TYPEERASE_MASSERASE" by simp
  note E = extended_erase_mass_ignores_banks [OF m]
  consider (a) "ucast (read_u16 mem p_Data) = FLASH_MASS_ERASE cfg"
    | (b) "ucast (read_u16 mem p_Data) \<noteq> FLASH_MASS_ERASE cfg"
          "ucast (read_u16 mem p_Data) = FLASH_BANK1_ERASE cfg"
    | (c) "ucast (read_u16 mem p_Data) \<noteq> FLASH_MASS_ERASE cfg"
          "ucast (read_u16 mem p_Data) \<noteq> FLASH_BANK1_ERASE cfg"
          "FLASH_OPTR_DBANK cfg" "ucast (read_u16 mem p_Data) = FLASH_BANK2_ERASE cfg"
    using assms(2) by blast
  then show ?thesis
  proof cases
    case a
    then show ?thesis
      using assms(1) by (simp add: OPENBL_FLASH_MassErase_def Let_def E)
  next
    case b
    then show ?thesis
      using assms(1) by (simp add: OPENBL_FLASH_MassErase_def Let_def E)
  next
    case c
    then show ?thesis
      using assms(1) by (simp add: OPENBL_FLASH_MassErase_def Let_def E)
  qed
qed

text \<open>
  Claim C5 says that the selector 0 selects all banks, 1 bank one and 2 bank two. The
  function does record the bank in \<open>erase_init_struct.Banks\<close>, but the erase it then
  calls sets \<^verbatim>\<open>FLASH_CR_MER1\<close> and the start bit whatever that field holds (the page
  branch beside it does pass the bank on). On the dual-bank example part the selector
  for bank two, the selector for bank one and the selector for all banks produce the
  same accesses, the mass erase of \<^verbatim>\<open>MER1\<close>.
\<close>

theorem mass_erase_bank_two_as_bank_one:
  "OPENBL_FLASH_MassErase example_flash_config dev_idle (mem_of 0x20000000 [2, 0] 0)
      0x20000000 2 stack_garbage 0 (flash_reset example_flash_config) =
    Some (SUCCESS,
          \<lparr>Lock = HAL_UNLOCKED, ErrorCode = 0, CacheToReactivate = FLASH_CACHE_DISABLED,
           Flash_BusyState = FLASH_BUSY_STATE_DISABLED,
           trace =
             [HAL_FLASH_Unlock, HAL_FLASH_GET_FLAG 0x10000, RegRead FLASH_SR,
              HAL_FLASH_GET_FLAG 1, READ_BIT FLASH_ACR 0x200, READ_BIT FLASH_ACR 0x400,
              SET_BIT FLASH_CR 0x4, SET_BIT FLASH_CR 0x10000,
              FLASH_WaitForLastOperation 1000, CLEAR_BIT FLASH_CR 0x4, FLASH_FlushCaches,
              HAL_FLASH_Lock]\<rparr>) \<and>
   OPENBL_FLASH_MassErase example_flash_config dev_idle (mem_of 0x20000000 [1, 0] 0)
      0x20000000 2 stack_garbage 0 (flash_reset example_flash_config) =
   OPENBL_FLASH_MassErase example_flash_config dev_idle (mem_of 0x20000000 [2, 0] 0)
      0x20000000 2 stack_garbage 0 (flash_reset example_flash_config) \<and>
   OPENBL_FLASH_MassErase example_flash_config dev_idle (mem_of 0x20000000 [0, 0] 0)
      0x20000000 2 stack_garbage 0 (flash_reset example_flash_config) =
   OPENBL_FLASH_MassErase example_flash_config dev_idle (mem_of 0x20000000 [2, 0] 0)
      0x20000000 2 stack_garbage 0 (flash_reset example_flash_config)"
  by code_simp

subsection \<open>Claim C4: the two waits\<close>

lemma hw_read_fields:
  "hw_read dev ev s = (v, s1) \<Longrightarrow>
     ErrorCode s1 = ErrorCode s \<and> Lock s1 = Lock s \<and>
     CacheToReactivate s1 = CacheToReactivate s \<and> Flash_BusyState s1 = Flash_BusyState s"
  by (auto simp: hw_read_def)

lemma tick_succ:
  assumes "unat (Timeout :: 32 word) < 2 ^ 32 - 1" and "\<not> Timeout < tick"
  shows "unat (tick + 1) = Suc (unat tick)"
proof -
  have "unat tick \<le> unat Timeout"
    using assms(2) by (simp add: word_less_nat_alt)
  then show ?thesis
    using assms(1) by (simp add: unat_word_ariths)
qed

lemma WaitForLastOperation_loop_returns:
  assumes T: "unat Timeout < 2 ^ 32 - 1"
  shows "unat tick \<le> Suc (unat Timeout) \<Longrightarrow>
     \<exists>timed_out s1. WaitForLastOperation_loop cfg dev Timeout tick s = Some (timed_out, s1) \<and>
        ErrorCode s1 = ErrorCode s \<and> Lock s1 = Lock s \<and>
        CacheToReactivate s1 = CacheToReactivate s \<and> Flash_BusyState s1 = Flash_BusyState s"
proof (induction "Suc (unat Timeout) - unat tick" arbitrary: tick s rule: less_induct)
  case less
  obtain bsy s1 where r: "hw_read dev (HAL_FLASH_GET_FLAG (FLASH_FLAG_BSY cfg)) s = (bsy, s1)"
    by (cases "hw_read dev (HAL_FLASH_GET_FLAG (FLASH_FLAG_BSY cfg)) s")
  note f = hw_read_fields [OF r]
  show ?case
  proof (cases "bsy \<noteq> 0 \<and> \<not> Timeout < tick")
    case False
    then show ?thesis
      using f by (subst WaitForLastOperation_loop.simps) (auto simp: r)
  next
    case True
    then have nt: "\<not> Timeout < tick" by simp
    have su: "unat (tick + 1) = Suc (unat tick)"
      by (rule tick_succ [OF T nt])
    have le: "unat tick \<le> unat Timeout"
      using nt by (simp add: word_less_nat_alt)
    have "\<exists>timed_out s2. WaitForLastOperation_loop cfg dev Timeout (tick + 1) s1 = Some (timed_out, s2) \<and>
        ErrorCode s2 = ErrorCode s1 \<and> Lock s2 = Lock s1 \<and>
        CacheToReactivate s2 = CacheToReactivate s1 \<and> Flash_BusyState s2 = Flash_BusyState s1"
      using le by (intro less.hyps) (simp_all add: su)
    then show ?thesis
      using True f by (subst WaitForLastOperation_loop.simps) (auto simp: r)
  qed
qed

lemma SendBusyState_loop_returns:
  assumes T: "unat Timeout < 2 ^ 32 - 1"
  shows "unat tick \<le> Suc (unat Timeout) \<Longrightarrow>
     \<exists>timed_out s1. SendBusyState_loop cfg dev Timeout tick s = Some (timed_out, s1) \<and>
        ErrorCode s1 = ErrorCode s \<and> Lock s1 = Lock s \<and>
        CacheToReactivate s1 = CacheToReactivate s \<and> Flash_BusyState s1 = Flash_BusyState s"
proof (induction "Suc (unat Timeout) - unat tick" arbitrary: tick s rule: less_induct)
  case less
  obtain bsy s1 where r: "hw_read dev (HAL_FLASH_GET_FLAG (FLASH_FLAG_BSY cfg)) s = (bsy, s1)"
    by (cases "hw_read dev (HAL_FLASH_GET_FLAG (FLASH_FLAG_BSY cfg)) s")
  note f = hw_read_fields [OF r]
  let ?s2 = "if I2Cx cfg then hw_call OPENBL_I2C_SendBusyByte s1 else s1"
  have f2: "ErrorCode ?s2 = ErrorCode s \<and> Lock ?s2 = Lock s \<and>
     CacheToReactivate ?s2 = CacheToReactivate s \<and> Flash_BusyState ?s2 = Flash_BusyState s"
    using f by (simp add: hw_call_def)
  show ?case
  proof (cases "bsy \<noteq> 0 \<and> \<not> Timeout < tick")
    case False
    then show ?thesis
      using f by (subst SendBusyState_loop.simps) (auto simp: r)
  next
    case True
    then have nt: "\<not> Timeout < tick" by simp
    have su: "unat (tick + 1) = Suc (unat tick)"
      by (rule tick_succ [OF T nt])
    have le: "unat tick \<le> unat Timeout"
      using nt by (simp add: word_less_nat_alt)
    have "\<exists>timed_out s3. SendBusyState_loop cfg dev Timeout (tick + 1) ?s2 = Some (timed_out, s3) \<and>
        ErrorCode s3 = ErrorCode ?s2 \<and> Lock s3 = Lock ?s2 \<and>
        CacheToReactivate s3 = CacheToReactivate ?s2 \<and> Flash_BusyState s3 = Flash_BusyState ?s2"
      using le by (intro less.hyps) (simp_all add: su)
    then show ?thesis
      using True f2 by (subst SendBusyState_loop.simps) (auto simp: r)
  qed
qed

lemma read_error_flags_fields:
  "read_error_flags cfg dev s = (error, s1) \<Longrightarrow>
     ErrorCode s1 = ErrorCode s \<and> Lock s1 = Lock s \<and>
     CacheToReactivate s1 = CacheToReactivate s \<and> Flash_BusyState s1 = Flash_BusyState s"
  by (auto simp: read_error_flags_def hw_read_def split: if_splits)

lemma clear_end_of_operation_fields:
  "ErrorCode (clear_end_of_operation cfg dev s) = ErrorCode s \<and>
   Lock (clear_end_of_operation cfg dev s) = Lock s \<and>
   CacheToReactivate (clear_end_of_operation cfg dev s) = CacheToReactivate s \<and>
   Flash_BusyState (clear_end_of_operation cfg dev s) = Flash_BusyState s"
  by (simp add: clear_end_of_operation_def hw_read_def hw_call_def)

lemma clear_error_flags_eq:
  "clear_error_flags cfg error s =
     s\<lparr>trace := trace s @ HAL_FLASH_CLEAR_FLAG error #
          (if ARM_FEATURE_CMSE_3 cfg \<and> error AND FLASH_FLAG_OPTWERR cfg \<noteq> 0
           then [RegWrite FLASH_NSSR (FLASH_FLAG_OPTWERR cfg)] else [])\<rparr>"
  by (auto simp: clear_error_flags_def hw_call_def Let_def)

text \<open>
  What the two waits do, for any device and any iteration bound below \<open>0xFFFFFFFF\<close>
  (with which their loops end). Both return \<^verbatim>\<open>HAL_TIMEOUT\<close> when the bound is
  exceeded while the flash is busy; otherwise they read the operation-error flags, and
  when one is set they clear it in the hardware and return \<^verbatim>\<open>HAL_ERROR\<close>. The plain
  wait ORs the flags into \<^verbatim>\<open>FlashProcess.ErrorCode\<close>; the keep-alive wait leaves the
  error code as it found it in every case.
\<close>

lemma plain_wait_outcomes:
  assumes T: "Timeout < 0xFFFFFFFF"
  shows "\<exists>timed_out s1 error s2.
        WaitForLastOperation_loop cfg dev Timeout 0 s = Some (timed_out, s1) \<and>
        read_error_flags cfg dev s1 = (error, s2) \<and>
        ErrorCode s1 = ErrorCode s \<and>
        ErrorCode (clear_end_of_operation cfg dev s2) = ErrorCode s \<and>
        OPENBL_FLASH_WaitForLastOperation cfg dev Timeout s =
          Some (if timed_out then (HAL_TIMEOUT, s1)
                else if error \<noteq> 0 then
                  (HAL_ERROR,
                   s2\<lparr>ErrorCode := ErrorCode s OR error,
                      trace := trace s2 @ HAL_FLASH_CLEAR_FLAG error #
                        (if ARM_FEATURE_CMSE_3 cfg \<and> error AND FLASH_FLAG_OPTWERR cfg \<noteq> 0
                         then [RegWrite FLASH_NSSR (FLASH_FLAG_OPTWERR cfg)] else [])\<rparr>)
                else (HAL_OK, clear_end_of_operation cfg dev s2))"
proof -
  have "unat Timeout < unat (0xFFFFFFFF :: 32 word)"
    using T by (simp only: word_less_nat_alt)
  then have U: "unat Timeout < 2 ^ 32 - 1" by simp
  from WaitForLastOperation_loop_returns [OF U, of 0 cfg dev s]
  obtain timed_out s1 where
    l: "WaitForLastOperation_loop cfg dev Timeout 0 s = Some (timed_out, s1)"
    and e1: "ErrorCode s1 = ErrorCode s"
    by auto
  obtain error s2 where r: "read_error_flags cfg dev s1 = (error, s2)"
    by (cases "read_error_flags cfg dev s1")
  have e2: "ErrorCode s2 = ErrorCode s"
    using read_error_flags_fields [OF r] e1 by simp
  have e3: "ErrorCode (clear_end_of_operation cfg dev s2) = ErrorCode s"
    using clear_end_of_operation_fields [of cfg dev s2] e2 by simp
  have w: "OPENBL_FLASH_WaitForLastOperation cfg dev Timeout s =
        Some (if timed_out then (HAL_TIMEOUT, s1)
              else if error \<noteq> 0 then
                (HAL_ERROR,
                 s2\<lparr>ErrorCode := ErrorCode s OR error,
                    trace := trace s2 @ HAL_FLASH_CLEAR_FLAG error #
                      (if ARM_FEATURE_CMSE_3 cfg \<and> error AND FLASH_FLAG_OPTWERR cfg \<noteq> 0
                       then [RegWrite FLASH_NSSR (FLASH_FLAG_OPTWERR cfg)] else [])\<rparr>)
              else (HAL_OK, clear_end_of_operation cfg dev s2))"
    by (simp add: OPENBL_FLASH_WaitForLastOperation_def l r clear_error_flags_eq e2)
  show ?thesis
    using l r e1 e3 w by blast
qed

lemma keep_alive_wait_outcomes:
  assumes T: "Timeout < 0xFFFFFFFF"
  shows "\<exists>timed_out s1 error s2.
        SendBusyState_loop cfg dev Timeout 0 s = Some (timed_out, s1) \<and>
        read_error_flags cfg dev s1 = (error, s2) \<and>
        ErrorCode s1 = ErrorCode s \<and> ErrorCode s2 = ErrorCode s \<and>
        ErrorCode (clear_end_of_operation cfg dev s2) = ErrorCode s \<and>
        OPENBL_FLASH_SendBusyState cfg dev Timeout s =
          Some (if timed_out then (HAL_TIMEOUT, s1)
                else if error \<noteq> 0 then
                  (HAL_ERROR,
                   s2\<lparr>trace := trace s2 @ HAL_FLASH_CLEAR_FLAG error #
                        (if ARM_FEATURE_CMSE_3 cfg \<and> error AND FLASH_FLAG_OPTWERR cfg \<noteq> 0
                         then [RegWrite FLASH_NSSR (FLASH_FLAG_OPTWERR cfg)] else [])\<rparr>)
                else (HAL_OK, clear_end_of_operation cfg dev s2))"
proof -
  have "unat Timeout < unat (0xFFFFFFFF :: 32 word)"
    using T by (simp only: word_less_nat_alt)
  then have U: "unat Timeout < 2 ^ 32 - 1" by simp
  from SendBusyState_loop_returns [OF U, of 0 cfg dev s]
  obtain timed_out s1 where
    l: "SendBusyState_loop cfg dev Timeout 0 s = Some (timed_out, s1)"
    and e1: "ErrorCode s1 = ErrorCode s"
    by auto
  obtain error s2 where r: "read_error_flags cfg dev s1 = (error, s2)"
    by (cases "read_error_flags cfg dev s1")
  have e2: "ErrorCode s2 = ErrorCode s"
    using read_error_flags_fields [OF r] e1 by simp
  have e3: "ErrorCode (clear_end_of_operation cfg dev s2) = ErrorCode s"
    using clear_end_of_operation_fields [of cfg dev s2] e2 by simp
  have w: "OPENBL_FLASH_SendBusyState cfg dev Timeout s =
        Some (if timed_out then (HAL_TIMEOUT, s1)
              else if error \<noteq> 0 then
                (HAL_ERROR,
                 s2\<lparr>trace := trace s2 @ HAL_FLASH_CLEAR_FLAG error #
                      (if ARM_FEATURE_CMSE_3 cfg \<and> error AND FLASH_FLAG_OPTWERR cfg \<noteq> 0
                       then [RegWrite FLASH_NSSR (FLASH_FLAG_OPTWERR cfg)] else [])\<rparr>)
              else (HAL_OK, clear_end_of_operation cfg dev s2))"
    by (simp add: OPENBL_FLASH_SendBusyState_def l r clear_error_flags_eq)
  show ?thesis
    using l r e1 e2 e3 w by blast
qed

text \<open>
  \<^verbatim>\<open>OPENBL_FLASH_ExtendedErase\<close> resets the error code before its first wait: with the
  lock free, what it does and returns does not depend on the error code at entry.
\<close>

lemma extended_erase_resets_error_code:
  "OPENBL_FLASH_ExtendedErase cfg dev pEraseInit PageError (s\<lparr>ErrorCode := e\<rparr>) =
     (if Lock s = HAL_LOCKED then Some (HAL_BUSY, PageError, s\<lparr>ErrorCode := e\<rparr>)
      else OPENBL_FLASH_ExtendedErase cfg dev pEraseInit PageError s)"
  by (simp add: OPENBL_FLASH_ExtendedErase_def)

text \<open>
  Claim C4 says of both waits that the error bitmask is cleared when a wait starts and
  that, once busy has cleared, the latched operation-error flags are accumulated into
  it, cleared from the hardware, and make the call return an error that is not the
  timeout status. The clearing is done by \<^verbatim>\<open>OPENBL_FLASH_ExtendedErase\<close> right before
  its first wait, the only place from which the plain wait is called, so every wait
  starts with a clear bitmask. For the plain wait the rest holds as well. The keep-alive
  wait misses the statement \<^verbatim>\<open>FlashProcess.ErrorCode |= error\<close> that the plain wait has:
  it clears the flags and returns \<^verbatim>\<open>HAL_ERROR\<close>, and the bitmask stays empty.

  On the example part with the busy-state flag enabled, the erase of page 5 on a device
  that latches the error flag \<open>0x10\<close> during the erase returns \<open>ERROR\<close>, the flag is
  cleared from the hardware, and the error code is 0. On a device that has the same
  flag latched from the start, the plain wait stores it: the error code is \<open>0x10\<close>.
\<close>

theorem keep_alive_wait_drops_error_flags:
  "OPENBL_FLASH_Erase example_flash_config dev_error_after_erase
      (mem_of 0x20000000 [1, 0, 5, 0] 0) 0x20000000 4 stack_garbage 0
      (OPENBL_Enable_BusyState_Flag (flash_reset example_flash_config)) =
    Some (ERROR,
          \<lparr>Lock = HAL_UNLOCKED, ErrorCode = 0, CacheToReactivate = FLASH_CACHE_DISABLED,
           Flash_BusyState = FLASH_BUSY_STATE_DISABLED,
           trace =
             [HAL_FLASH_Unlock, HAL_FLASH_CLEAR_FLAG 0xC3FA,
              HAL_FLASH_GET_FLAG 0x10000, RegRead FLASH_SR, HAL_FLASH_GET_FLAG 1,
              READ_BIT FLASH_ACR 0x200, READ_BIT FLASH_ACR 0x400,
              FLASH_PageErase 5 1, HAL_FLASH_GET_FLAG 0x10000, RegRead FLASH_SR,
              HAL_FLASH_CLEAR_FLAG 0x10, CLEAR_BIT FLASH_CR 0x3FA,
              FLASH_FlushCaches, HAL_FLASH_Lock]\<rparr>) \<and>
   OPENBL_FLASH_Erase example_flash_config dev_error
      (mem_of 0x20000000 [1, 0, 5, 0] 0) 0x20000000 4 stack_garbage 0
      (flash_reset example_flash_config) =
    Some (ERROR,
          \<lparr>Lock = HAL_UNLOCKED, ErrorCode = 0x10, CacheToReactivate = FLASH_CACHE_DISABLED,
           Flash_BusyState = FLASH_BUSY_STATE_DISABLED,
           trace =
             [HAL_FLASH_Unlock, HAL_FLASH_CLEAR_FLAG 0xC3FA,
              HAL_FLASH_GET_FLAG 0x10000, RegRead FLASH_SR,
              HAL_FLASH_CLEAR_FLAG 0x10, HAL_FLASH_Lock]\<rparr>)"
  by code_simp

subsection \<open>Claim C6: programming a length that is no multiple of the unit\<close>

lemma unat_and_mask: "unat ((x :: 32 word) AND mask k) = unat x mod 2 ^ k"
proof -
  have "unat (x AND mask k) = unat (take_bit k x)"
    by (simp only: take_bit_eq_mask)
  also have "\<dots> = take_bit k (unat x)"
    by (simp only: unsigned_take_bit_eq)
  also have "\<dots> = unat x mod 2 ^ k"
    by (simp only: take_bit_eq_mod)
  finally show ?thesis .
qed

lemma and_not_mask_eq: "(x :: 32 word) AND NOT (mask k) = x - (x AND mask k)"
proof -
  have "x - (x AND mask k) = x AND NOT (x AND mask k)"
    by (rule disjunctive_diff_eq_and_not) (rule bit_eqI, simp add: bit_and_iff bit_not_iff)
  also have "\<dots> = x AND NOT (mask k)"
    by (rule bit_eqI) (auto simp: bit_and_iff bit_not_iff bit_or_iff)
  finally show ?thesis by simp
qed

lemma unat_and_not_mask: "unat ((x :: 32 word) AND NOT (mask k)) = 2 ^ k * (unat x div 2 ^ k)"
proof -
  have "unat (x - (x AND mask k)) = unat x - unat (x AND mask k)"
    by (rule unat_sub) (rule word_and_le2)
  then have "unat (x AND NOT (mask k)) = unat x - unat x mod 2 ^ k"
    by (simp add: and_not_mask_eq unat_and_mask)
  then show ?thesis
    by (simp add: minus_mod_eq_mult_div)
qed

lemma word_0xF:  "(0xF :: 32 word) = mask 4" by (simp add: mask_eq_exp_minus_1)
lemma word_7:  "(7 :: 32 word) = mask 3" by (simp add: mask_eq_exp_minus_1)
lemma word_0xFFFFFFF0:  "(0xFFFFFFF0 :: 32 word) = NOT (mask 4)" by (simp add: mask_eq_exp_minus_1 not_eq_complement)
lemma word_0xFFFFFFF8:  "(0xFFFFFFF8 :: 32 word) = NOT (mask 3)" by (simp add: mask_eq_exp_minus_1 not_eq_complement)


lemma programmed_bytes_append:
  "programmed_bytes (xs @ ys) = programmed_bytes xs + programmed_bytes ys"
  by (induction xs rule: programmed_bytes.induct) simp_all

lemma programmed_bytes_doublewords:
  "programmed_bytes (map (\<lambda>j. HAL_FLASH_Program (DoubleWord (f j)) (g j)) js) = 8 * length js"
  by (induction js) simp_all

lemma programmed_bytes_quadwords:
  "programmed_bytes (map (\<lambda>j. HAL_FLASH_Program (QuadWord (f j)) (g j)) js) = 16 * length js"
  by (induction js) simp_all

lemma unat_index_step:
  assumes "unat (index :: 32 word) + n \<le> unat (length1 :: 32 word)"
  shows "unat (index + of_nat n) = unat index + n"
proof -
  have "unat length1 < 2 ^ 32"
    using unsigned_less [of length1] by simp
  with assms have "unat index + n < 2 ^ 32" by simp
  then show ?thesis
    by (simp add: unat_word_ariths unat_of_nat)
qed

lemma doubleword_loop_runs:
  "unat index + 8 * k = unat length1 \<Longrightarrow>
     Write_doubleword_loop mem Address Data length1 index s =
       Some (s\<lparr>trace := trace s @
               map (\<lambda>j. HAL_FLASH_Program
                           (DoubleWord (read_u64 mem (Data + (index + 8 * of_nat j))))
                           (Address + (index + 8 * of_nat j))) [0..<k]\<rparr>)"
proof (induction k arbitrary: index s)
  case 0
  then have "index = length1" by (simp add: word_unat_eq_iff)
  then show ?case
    by (subst Write_doubleword_loop.simps) simp
next
  case (Suc k)
  have le: "unat index + 8 \<le> unat length1"
    using Suc.prems by simp
  have st: "unat (index + 8) = unat index + 8"
    using unat_index_step [OF le] by simp
  have lt: "index < length1"
    using le by (simp add: word_less_nat_alt)
  have p: "unat (index + 8) + 8 * k = unat length1"
    using Suc.prems st by simp
  note IH = Suc.IH [OF p]
  show ?case
    by (subst Write_doubleword_loop.simps)
       (simp add: lt IH hw_call_def map_upt_Suc algebra_simps del: upt_Suc)
qed

lemma quadword_loop_runs:
  "unat index + 16 * k = unat length1 \<Longrightarrow>
     Write_quadword_loop mem Address Data length1 index s =
       Some (s\<lparr>trace := trace s @
               map (\<lambda>j. HAL_FLASH_Program
                           (QuadWord (read_bytes mem (Data + (index + 16 * of_nat j)) 16))
                           (Address + (index + 16 * of_nat j))) [0..<k]\<rparr>)"
proof (induction k arbitrary: index s)
  case 0
  then have "index = length1" by (simp add: word_unat_eq_iff)
  then show ?case
    by (subst Write_quadword_loop.simps) simp
next
  case (Suc k)
  have le: "unat index + 16 \<le> unat length1"
    using Suc.prems by simp
  have st: "unat (index + 16) = unat index + 16"
    using unat_index_step [OF le] by simp
  have lt: "index < length1"
    using le by (simp add: word_less_nat_alt)
  have p: "unat (index + 16) + 16 * k = unat length1"
    using Suc.prems st by simp
  note IH = Suc.IH [OF p]
  show ?case
    by (subst Write_quadword_loop.simps)
       (simp add: lt IH hw_call_def map_upt_Suc algebra_simps del: upt_Suc)
qed

lemma copy_remaining_eq:
  "index \<le> remainder \<Longrightarrow> remainder \<le> length buf \<Longrightarrow>
     copy_remaining mem src remainder index buf =
       take index buf @ map (\<lambda>i. mem (src + of_nat i)) [index..<remainder] @ drop remainder buf"
proof (induction mem src remainder index buf rule: copy_remaining.induct)
  case (1 mem src remainder index buf)
  show ?case
  proof (cases "index < remainder")
    case False
    with "1.prems" have "index = remainder" by simp
    then show ?thesis
      by (subst copy_remaining.simps) simp
  next
    case True
    have a: "index + 1 \<le> remainder" using True by simp
    have b: "remainder \<le> length (buf[index := mem (src + of_nat index)])"
      using "1.prems" by simp
    note IH = "1.IH" [OF True a b]
    have il: "index < length buf" using True "1.prems" by simp
    have t: "take (index + 1) (buf[index := mem (src + of_nat index)]) =
             take index buf @ [mem (src + of_nat index)]"
      using il by (simp add: take_Suc_conv_app_nth)
    have d: "drop remainder (buf[index := mem (src + of_nat index)]) = drop remainder buf"
      using True by simp
    have u: "[index..<remainder] = index # [index + 1..<remainder]"
      using True by (simp add: upt_conv_Cons)
    show ?thesis
      using IH t d by (subst copy_remaining.simps) (simp add: True u del: upt_Suc)
  qed
qed

lemma fill_upper_eq:
  "index \<le> 16 \<Longrightarrow> length buf = 16 \<Longrightarrow>
     fill_upper index buf = take index buf @ replicate (16 - index) 0xFF"
proof (induction index buf rule: fill_upper.induct)
  case (1 index buf)
  show ?case
  proof (cases "index < 16")
    case False
    with "1.prems" have "index = 16" by simp
    then show ?thesis
      using "1.prems" by (subst fill_upper.simps) simp
  next
    case True
    have a: "index + 1 \<le> 16" using True by simp
    have b: "length (buf[index := 0xFF]) = 16" using "1.prems" by simp
    note IH = "1.IH" [OF True a b]
    have il: "index < length buf" using True "1.prems" by simp
    have t: "take (index + 1) (buf[index := 0xFF]) = take index buf @ [0xFF]"
      using il by (simp add: take_Suc_conv_app_nth)
    have r: "replicate (16 - index) (0xFF :: 8 word) = 0xFF # replicate (16 - (index + 1)) 0xFF"
      using True by (simp add: Suc_diff_Suc replicate_Suc [symmetric] del: replicate_Suc)
    show ?thesis
      using IH t r by (subst fill_upper.simps) (simp add: True)
  qed
qed

lemma remainder_data_eq:
  assumes "r \<le> 16"
  shows "fill_upper r (copy_remaining mem src r 0 (replicate 16 0)) =
         read_bytes mem src r @ replicate (16 - r) 0xFF"
proof -
  have c: "copy_remaining mem src r 0 (replicate 16 0) =
           map (\<lambda>i. mem (src + of_nat i)) [0..<r] @ drop r (replicate 16 0)"
    using assms by (simp add: copy_remaining_eq)
  have l: "length (copy_remaining mem src r 0 (replicate 16 0)) = 16"
    using assms by (simp add: c)
  show ?thesis
    using assms by (simp add: fill_upper_eq [OF assms l]) (simp add: c read_bytes_def)
qed

lemma round_up_8:
  assumes "(d :: nat) mod 8 \<noteq> 0"
  shows "(d + 7) div 8 = d div 8 + 1"
proof -
  define q r where "q = d div 8" and "r = d mod 8"
  have d: "d = 8 * q + r" by (simp add: q_def r_def)
  have r: "0 < r" "r < 8" using assms by (simp_all add: r_def)
  have "(8 * q + r + 7) div 8 = q + 1"
  proof (rule div_nat_eqI)
    show "8 * (q + 1) \<le> 8 * q + r + 7" using r by simp
    show "8 * q + r + 7 < 8 * Suc (q + 1)" using r by simp
  qed
  then have "(d + 7) div 8 = q + 1" by (simp only: d)
  then show ?thesis by (simp only: q_def)
qed

lemma round_up_16:
  assumes "(d :: nat) mod 16 \<noteq> 0"
  shows "(d + 15) div 16 = d div 16 + 1"
proof -
  define q r where "q = d div 16" and "r = d mod 16"
  have d: "d = 16 * q + r" by (simp add: q_def r_def)
  have r: "0 < r" "r < 16" using assms by (simp_all add: r_def)
  have "(16 * q + r + 15) div 16 = q + 1"
  proof (rule div_nat_eqI)
    show "16 * (q + 1) \<le> 16 * q + r + 15" using r by simp
    show "16 * q + r + 15 < 16 * Suc (q + 1)" using r by simp
  qed
  then have "(d + 15) div 16 = q + 1" by (simp only: d)
  then show ?thesis by (simp only: q_def)
qed

lemma write_doubleword:
  assumes q: "\<not> FLASH_TYPEPROGRAM_QUADWORD cfg"
    and m: "unat DataLength mod 8 \<noteq> 0"
    and b: "DataLength \<le> 0xFFFFFFF8"
  shows "OPENBL_FLASH_Write cfg mem Address Data DataLength s =
     Some (s\<lparr>trace := trace s @ [HAL_FLASH_Unlock] @
             map (\<lambda>j. HAL_FLASH_Program (DoubleWord (read_u64 mem (Data + 8 * of_nat j)))
                         (Address + 8 * of_nat j)) [0..<(unat DataLength + 7) div 8] @
             [HAL_FLASH_Lock]\<rparr>)"
proof -
  let ?d = "unat DataLength"
  let ?len = "(DataLength AND 0xFFFFFFF8) + 8"
  have a7: "unat (DataLength AND 7) = ?d mod 8"
    using unat_and_mask [of DataLength 3] by (simp add: word_7 [symmetric])
  have nz: "DataLength AND 7 \<noteq> 0"
    using a7 m by (auto simp: word_unat_eq_iff)
  have a8: "unat (DataLength AND 0xFFFFFFF8) = 8 * (?d div 8)"
    using unat_and_not_mask [of DataLength 3] by (simp add: word_0xFFFFFFF8 [symmetric])
  have "?d \<le> unat (0xFFFFFFF8 :: 32 word)"
    using b by (simp only: word_le_nat_alt)
  then have db: "?d \<le> 4294967288" by simp
  have dm: "8 * (?d div 8) + ?d mod 8 = ?d" by simp
  have "0 < ?d mod 8" using m by simp
  with dm db have "8 * (?d div 8) < 8 * 536870911" by linarith
  then have "?d div 8 < 536870911" by simp
  then have "?d div 8 + 1 \<le> 536870911" by simp
  then have "8 * (?d div 8 + 1) \<le> 8 * 536870911" by (simp only: mult_le_mono2)
  then have sm: "8 * (?d div 8) + 8 \<le> 4294967288" by simp
  have ul: "unat ?len = 8 * (?d div 8) + 8"
    using sm by (simp add: unat_word_ariths a8)
  have k: "(?d + 7) div 8 = ?d div 8 + 1"
    using m by (rule round_up_8)
  have run: "unat (0 :: 32 word) + 8 * ((?d + 7) div 8) = unat ?len"
    by (simp add: ul k)
  note L = doubleword_loop_runs [OF run, of mem Address Data
      "s\<lparr>trace := trace s @ [HAL_FLASH_Unlock]\<rparr>", simplified]
  show ?thesis
    using q nz
    by (simp add: OPENBL_FLASH_Write_def Let_def OPENBL_FLASH_Unlock_def
        OPENBL_FLASH_Lock_def hw_call_def L)
qed

lemma write_quadword:
  assumes q: "FLASH_TYPEPROGRAM_QUADWORD cfg"
    and m: "unat DataLength mod 16 \<noteq> 0"
  shows "OPENBL_FLASH_Write cfg mem Address Data DataLength s =
     Some (s\<lparr>trace := trace s @ [HAL_FLASH_Unlock] @
             map (\<lambda>j. HAL_FLASH_Program (QuadWord (read_bytes mem (Data + 16 * of_nat j) 16))
                         (Address + 16 * of_nat j)) [0..<unat DataLength div 16] @
             [HAL_FLASH_Program
                (QuadWord (read_bytes mem (Data + (DataLength AND 0xFFFFFFF0))
                             (unat DataLength mod 16) @
                           replicate (16 - unat DataLength mod 16) 0xFF))
                (Address + (DataLength AND 0xFFFFFFF0)),
              HAL_FLASH_Lock]\<rparr>)"
proof -
  let ?d = "unat DataLength"
  let ?len = "DataLength AND 0xFFFFFFF0"
  have a15: "unat (DataLength AND 0xF) = ?d mod 16"
    using unat_and_mask [of DataLength 4] by (simp add: word_0xF [symmetric])
  have nz: "DataLength AND 0xF \<noteq> 0"
    using a15 m by (auto simp: word_unat_eq_iff)
  have ul: "unat ?len = 16 * (?d div 16)"
    using unat_and_not_mask [of DataLength 4] by (simp add: word_0xFFFFFFF0 [symmetric])
  have run: "unat (0 :: 32 word) + 16 * (?d div 16) = unat ?len"
    by (simp add: ul)
  note L = quadword_loop_runs [OF run, of mem Address Data
      "s\<lparr>trace := trace s @ [HAL_FLASH_Unlock]\<rparr>", simplified]
  have r16: "?d mod 16 \<le> 16" by simp
  note R = remainder_data_eq [OF r16, of mem "Data + ?len"]
  show ?thesis
    using q nz
    by (simp add: OPENBL_FLASH_Write_def Let_def OPENBL_FLASH_Unlock_def
        OPENBL_FLASH_Lock_def hw_call_def L a15 R)
qed

text \<open>
  Claim C6 says that every write whose length is no multiple of the unit programs the
  length rounded up to the unit. On a double-word part the rounding is
  \<open>(length & 0xFFFFFFF8) + 8\<close> in 32-bit arithmetic: for a length above \<open>0xFFFFFFF8\<close>
  it wraps to 0, the loop does not run and nothing is programmed.
\<close>

theorem write_rounding_wraps_counterexample:
  "\<not> FLASH_TYPEPROGRAM_QUADWORD example_flash_config \<and>
   unat (0xFFFFFFFF :: 32 word) mod 8 \<noteq> 0 \<and>
   OPENBL_FLASH_Write example_flash_config (mem_of 0x20000000 [1, 2, 3, 4, 5] 0x77)
      0x08000000 0x20000000 0xFFFFFFFF (flash_reset example_flash_config) =
     Some \<lparr>Lock = HAL_UNLOCKED, ErrorCode = 0, CacheToReactivate = FLASH_CACHE_DISABLED,
           Flash_BusyState = FLASH_BUSY_STATE_DISABLED,
           trace = [HAL_FLASH_Unlock, HAL_FLASH_Lock]\<rparr> \<and>
   programmed_bytes [HAL_FLASH_Unlock, HAL_FLASH_Lock] = 0 \<and>
   8 * ((unat (0xFFFFFFFF :: 32 word) + 7) div 8) = 4294967296"
proof -
  have a: "\<not> FLASH_TYPEPROGRAM_QUADWORD example_flash_config"
    by (simp add: example_flash_config_def)
  have b: "unat (0xFFFFFFFF :: 32 word) mod 8 \<noteq> 0" by simp
  have c: "OPENBL_FLASH_Write example_flash_config (mem_of 0x20000000 [1, 2, 3, 4, 5] 0x77)
      0x08000000 0x20000000 0xFFFFFFFF (flash_reset example_flash_config) =
     Some \<lparr>Lock = HAL_UNLOCKED, ErrorCode = 0, CacheToReactivate = FLASH_CACHE_DISABLED,
           Flash_BusyState = FLASH_BUSY_STATE_DISABLED,
           trace = [HAL_FLASH_Unlock, HAL_FLASH_Lock]\<rparr>"
    by code_simp
  have d: "programmed_bytes [HAL_FLASH_Unlock, HAL_FLASH_Lock] = 0" by simp
  have e: "8 * ((unat (0xFFFFFFFF :: 32 word) + 7) div 8) = 4294967296" by simp
  show ?thesis
    by (intro conjI a b c d e)
qed

text \<open>
  Claim C6 as amended. For a length that is no multiple of the programmable unit the
  write programs the length rounded up to the unit, on double-word parts provided the
  length is at most \<open>0xFFFFFFF8\<close> (so that the rounding does not wrap). On quad-word
  parts the whole units are programmed from the buffer and one more unit from the
  scratch buffer, which holds the remaining bytes followed by \<open>0xFF\<close>. On double-word
  parts the loop runs to the next 8-byte boundary and every double word is read from
  the buffer, the last one reaching past the nominal end. Flash unlock precedes and
  lock follows.
\<close>

theorem write_rounds_up_to_unit:
  "(FLASH_TYPEPROGRAM_QUADWORD cfg \<and> unat DataLength mod 16 \<noteq> 0 \<longrightarrow>
      (\<exists>s'. OPENBL_FLASH_Write cfg mem Address Data DataLength s = Some s' \<and>
            programmed_bytes (trace s') =
              programmed_bytes (trace s) + 16 * ((unat DataLength + 15) div 16) \<and>
            trace s' = trace s @ [HAL_FLASH_Unlock] @
              map (\<lambda>j. HAL_FLASH_Program (QuadWord (read_bytes mem (Data + 16 * of_nat j) 16))
                          (Address + 16 * of_nat j)) [0..<unat DataLength div 16] @
              [HAL_FLASH_Program
                 (QuadWord (read_bytes mem (Data + (DataLength AND 0xFFFFFFF0))
                              (unat DataLength mod 16) @
                            replicate (16 - unat DataLength mod 16) 0xFF))
                 (Address + (DataLength AND 0xFFFFFFF0)),
               HAL_FLASH_Lock])) \<and>
   (\<not> FLASH_TYPEPROGRAM_QUADWORD cfg \<and> unat DataLength mod 8 \<noteq> 0 \<and>
    DataLength \<le> 0xFFFFFFF8 \<longrightarrow>
      (\<exists>s'. OPENBL_FLASH_Write cfg mem Address Data DataLength s = Some s' \<and>
            programmed_bytes (trace s') =
              programmed_bytes (trace s) + 8 * ((unat DataLength + 7) div 8) \<and>
            trace s' = trace s @ [HAL_FLASH_Unlock] @
              map (\<lambda>j. HAL_FLASH_Program (DoubleWord (read_u64 mem (Data + 8 * of_nat j)))
                          (Address + 8 * of_nat j)) [0..<(unat DataLength + 7) div 8] @
              [HAL_FLASH_Lock]))"
proof (intro conjI impI)
  assume h: "FLASH_TYPEPROGRAM_QUADWORD cfg \<and> unat DataLength mod 16 \<noteq> 0"
  then have q: "FLASH_TYPEPROGRAM_QUADWORD cfg" and m: "unat DataLength mod 16 \<noteq> 0"
    by simp_all
  have k: "16 * ((unat DataLength + 15) div 16) = 16 * (unat DataLength div 16) + 16"
    using round_up_16 [OF m] by simp
  show "\<exists>s'. OPENBL_FLASH_Write cfg mem Address Data DataLength s = Some s' \<and>
            programmed_bytes (trace s') =
              programmed_bytes (trace s) + 16 * ((unat DataLength + 15) div 16) \<and>
            trace s' = trace s @ [HAL_FLASH_Unlock] @
              map (\<lambda>j. HAL_FLASH_Program (QuadWord (read_bytes mem (Data + 16 * of_nat j) 16))
                          (Address + 16 * of_nat j)) [0..<unat DataLength div 16] @
              [HAL_FLASH_Program
                 (QuadWord (read_bytes mem (Data + (DataLength AND 0xFFFFFFF0))
                              (unat DataLength mod 16) @
                            replicate (16 - unat DataLength mod 16) 0xFF))
                 (Address + (DataLength AND 0xFFFFFFF0)),
               HAL_FLASH_Lock]"
    by (simp only: write_quadword [OF q m] k)
       (simp add: programmed_bytes_append programmed_bytes_quadwords)
next
  assume h: "\<not> FLASH_TYPEPROGRAM_QUADWORD cfg \<and> unat DataLength mod 8 \<noteq> 0 \<and>
    DataLength \<le> 0xFFFFFFF8"
  then have q: "\<not> FLASH_TYPEPROGRAM_QUADWORD cfg" and m: "unat DataLength mod 8 \<noteq> 0"
    and b: "DataLength \<le> 0xFFFFFFF8"
    by simp_all
  show "\<exists>s'. OPENBL_FLASH_Write cfg mem Address Data DataLength s = Some s' \<and>
            programmed_bytes (trace s') =
              programmed_bytes (trace s) + 8 * ((unat DataLength + 7) div 8) \<and>
            trace s' = trace s @ [HAL_FLASH_Unlock] @
              map (\<lambda>j. HAL_FLASH_Program (DoubleWord (read_u64 mem (Data + 8 * of_nat j)))
                          (Address + 8 * of_nat j)) [0..<(unat DataLength + 7) div 8] @
              [HAL_FLASH_Lock]"
    by (simp only: write_doubleword [OF q m b])
       (simp add: programmed_bytes_append programmed_bytes_doublewords)
qed

text \<open>
  Five bytes on the double-word example part are programmed as one double word, whose
  upper three bytes are what lies behind the buffer (\<open>0x77\<close>); eighteen bytes on the
  quad-word part are programmed as one quad word from the buffer and one from the
  scratch buffer, two bytes and fourteen \<open>0xFF\<close>.
\<close>

theorem write_rounds_up_to_unit_witness:
  "\<not> FLASH_TYPEPROGRAM_QUADWORD example_flash_config \<and>
   unat (5 :: 32 word) mod 8 \<noteq> 0 \<and> (5 :: 32 word) \<le> 0xFFFFFFF8 \<and>
   OPENBL_FLASH_Write example_flash_config (mem_of 0x20000000 [1, 2, 3, 4, 5] 0x77)
      0x08000000 0x20000000 5 (flash_reset example_flash_config) =
     Some \<lparr>Lock = HAL_UNLOCKED, ErrorCode = 0, CacheToReactivate = FLASH_CACHE_DISABLED,
           Flash_BusyState = FLASH_BUSY_STATE_DISABLED,
           trace = [HAL_FLASH_Unlock,
                    HAL_FLASH_Program (DoubleWord 0x7777770504030201) 0x08000000,
                    HAL_FLASH_Lock]\<rparr> \<and>
   FLASH_TYPEPROGRAM_QUADWORD example_quadword_config \<and>
   unat (18 :: 32 word) mod 16 \<noteq> 0 \<and>
   OPENBL_FLASH_Write example_quadword_config
      (mem_of 0x20000000 [1, 2, 3, 4, 5, 6, 7, 8, 9, 10, 11, 12, 13, 14, 15, 16, 17, 18] 0x77)
      0x08000000 0x20000000 18 (flash_reset example_quadword_config) =
     Some \<lparr>Lock = HAL_UNLOCKED, ErrorCode = 0, CacheToReactivate = FLASH_CACHE_DISABLED,
           Flash_BusyState = FLASH_BUSY_STATE_DISABLED,
           trace = [HAL_FLASH_Unlock,
                    HAL_FLASH_Program
                      (QuadWord [1, 2, 3, 4, 5, 6, 7, 8, 9, 10, 11, 12, 13, 14, 15, 16])
                      0x08000000,
                    HAL_FLASH_Program
                      (QuadWord [17, 18, 0xFF, 0xFF, 0xFF, 0xFF, 0xFF, 0xFF, 0xFF, 0xFF,
                                 0xFF, 0xFF, 0xFF, 0xFF, 0xFF, 0xFF])
                      0x08000010,
                    HAL_FLASH_Lock]\<rparr>"
proof -
  let ?m5 = "mem_of 0x20000000 [1, 2, 3, 4, 5] 0x77"
  let ?m18 = "mem_of 0x20000000 [1, 2, 3, 4, 5, 6, 7, 8, 9, 10, 11, 12, 13, 14, 15, 16, 17, 18] 0x77"
  have a: "\<not> FLASH_TYPEPROGRAM_QUADWORD example_flash_config"
    by (simp add: example_flash_config_def)
  have b: "unat (5 :: 32 word) mod 8 \<noteq> 0" by simp
  have c: "(5 :: 32 word) \<le> 0xFFFFFFF8" by simp
  have d: "FLASH_TYPEPROGRAM_QUADWORD example_quadword_config"
    by (simp add: example_quadword_config_def)
  have e: "unat (18 :: 32 word) mod 16 \<noteq> 0" by simp
  from write_rounds_up_to_unit [of example_flash_config 5 ?m5 "0x08000000" "0x20000000"
      "flash_reset example_flash_config", THEN conjunct2, rule_format, OF conjI [OF a conjI [OF b c]]]
  obtain s5 where s5: "OPENBL_FLASH_Write example_flash_config ?m5 0x08000000 0x20000000 5
      (flash_reset example_flash_config) = Some s5"
    by blast
  have v5: "OPENBL_FLASH_Write example_flash_config ?m5 0x08000000 0x20000000 5
      (flash_reset example_flash_config) =
     Some \<lparr>Lock = HAL_UNLOCKED, ErrorCode = 0, CacheToReactivate = FLASH_CACHE_DISABLED,
           Flash_BusyState = FLASH_BUSY_STATE_DISABLED,
           trace = [HAL_FLASH_Unlock,
                    HAL_FLASH_Program (DoubleWord 0x7777770504030201) 0x08000000,
                    HAL_FLASH_Lock]\<rparr>"
    by code_simp
  from write_rounds_up_to_unit [of example_quadword_config 18 ?m18 "0x08000000" "0x20000000"
      "flash_reset example_quadword_config", THEN conjunct1, rule_format, OF conjI [OF d e]]
  obtain s18 where s18: "OPENBL_FLASH_Write example_quadword_config ?m18 0x08000000 0x20000000 18
      (flash_reset example_quadword_config) = Some s18"
    by blast
  have v18: "OPENBL_FLASH_Write example_quadword_config ?m18 0x08000000 0x20000000 18
      (flash_reset example_quadword_config) =
     Some \<lparr>Lock = HAL_UNLOCKED, ErrorCode = 0, CacheToReactivate = FLASH_CACHE_DISABLED,
           Flash_BusyState = FLASH_BUSY_STATE_DISABLED,
           trace = [HAL_FLASH_Unlock,
                    HAL_FLASH_Program
                      (QuadWord [1, 2, 3, 4, 5, 6, 7, 8, 9, 10, 11, 12, 13, 14, 15, 16])
                      0x08000000,
                    HAL_FLASH_Program
                      (QuadWord [17, 18, 0xFF, 0xFF, 0xFF, 0xFF, 0xFF, 0xFF, 0xFF, 0xFF,
                                 0xFF, 0xFF, 0xFF, 0xFF, 0xFF, 0xFF])
                      0x08000010,
                    HAL_FLASH_Lock]\<rparr>"
    by code_simp
  show ?thesis
    using s5 s18 by (intro conjI a b c d e v5 v18)
qed


end
